theory Spec2Isabelle
  imports Complex_Main "HOL-Library.Log_Nat"
begin

section \<open>Python values\<close>

subsection \<open>Floats: IEEE-754 binary64, round to nearest, ties to even\<close>

text \<open>
  A Python \<open>float\<close> is a binary64 number.  A finite one is kept as the rational it
  denotes (\<open>0.0\<close> and \<open>-0.0\<close> are not told apart; they compare equal in Python and
  nothing below prints or divides by them).  \<open>binade q\<close> is the exponent \<open>e\<close> with
  \<open>2^e \<le> |q| < 2^(e+1)\<close>; the spacing of the doubles around \<open>q\<close> is
  \<open>2^(e - 52)\<close>, and \<open>2^(-1074)\<close> in the subnormal range.  \<open>nearest_binary64\<close> rounds
  a rational to the nearest multiple of that spacing, ties to the even multiple, and
  \<open>round_binary64\<close> adds the overflow to infinity.
\<close>

datatype pyfloat = Fin rat | PInf | NInf | NaN

definition binade :: "rat \<Rightarrow> int" where
  "binade q =
     (let d = bitlen \<bar>fst (quotient_of q)\<bar> - bitlen (snd (quotient_of q))
      in if 2 powi d \<le> \<bar>q\<bar> then d else d - 1)"

definition round_half_even :: "rat \<Rightarrow> int" where
  "round_half_even x =
     (let f = \<lfloor>x\<rfloor>; r = x - of_int f
      in if r < 1 / 2 then f else if 1 / 2 < r then f + 1 else if even f then f else f + 1)"

definition ulp_exp :: "rat \<Rightarrow> int" where
  "ulp_exp q = max (binade q - 52) (- 1074)"

definition nearest_binary64 :: "rat \<Rightarrow> rat" where
  "nearest_binary64 q =
     (if q = 0 then 0
      else of_int (round_half_even (q / 2 powi ulp_exp q)) * 2 powi ulp_exp q)"

definition round_binary64 :: "rat \<Rightarrow> pyfloat" where
  "round_binary64 q =
     (let r = nearest_binary64 q
      in if 2 ^ 1024 \<le> \<bar>r\<bar> then (if 0 < q then PInf else NInf) else Fin r)"

text \<open>\<open>x / c\<close> and \<open>x * c\<close> for a float \<open>x\<close> and a finite constant \<open>c > 0\<close>
  (the code only divides by \<open>1e7\<close> and \<open>10**6\<close>, and the library multiplies by \<open>1e6\<close>).\<close>

fun float_div :: "pyfloat \<Rightarrow> rat \<Rightarrow> pyfloat" where
  "float_div (Fin q) c = round_binary64 (q / c)"
| "float_div PInf c = PInf"
| "float_div NInf c = NInf"
| "float_div NaN c = NaN"

fun float_mul :: "pyfloat \<Rightarrow> rat \<Rightarrow> pyfloat" where
  "float_mul (Fin q) c = round_binary64 (q * c)"
| "float_mul PInf c = PInf"
| "float_mul NInf c = NInf"
| "float_mul NaN c = NaN"

subsection \<open>JSON values, exceptions\<close>

text \<open>
  The value \<open>json.loads\<close> returns.  Python's \<open>None\<close> is \<open>JNull\<close>, a \<open>dict\<close> is the list
  of its items in insertion order (its keys are pairwise distinct), a \<open>str\<close> is a
  \<open>string\<close> whose characters stand for the code points.
\<close>

datatype json =
    JNull
  | JBool bool
  | JInt int
  | JFloat pyfloat
  | JStr string
  | JArr "json list"
  | JObj "(string \<times> json) list"

text \<open>
  The messages of the \<open>RuntimeError\<close>s the extractors build, by the place that builds
  them.  The file path and the \<open>repr\<close> of the offending record, which the source formats
  into the text, are left out; the key names are kept.
\<close>

datatype message =
    ActivityTopLevelNotList
  | LikesTopLevelNotList
  | AppInstallsTopLevelNotList
  | LocationsNoLocationsKey
  | SemanticTopLevelNotDict
  | SemanticNoTimelineObjectsKey
  | UnknownTimelineObject "string list"
  | PlaceVisitNoRequiredKey string
  | PlaceVisitNoKey string
  | ActivitySegmentNoRequiredKey string
  | ActivitySegmentNoKey string
  | ChromeNoBrowserHistoryKey

datatype exn =
    RuntimeError message
  | KeyError string
  | TypeError
  | AttributeError
  | ValueError
  | OverflowError
  | OSError
  | UnboundLocalError

text \<open>A computation that returns or raises; \<open>rbind\<close> sequences two of them, and
  \<open>mapM\<close> is a list comprehension whose element expression may raise.\<close>

definition rbind :: "exn + 'a \<Rightarrow> ('a \<Rightarrow> exn + 'b) \<Rightarrow> exn + 'b" where
  "rbind m f = (case m of Inl e \<Rightarrow> Inl e | Inr x \<Rightarrow> f x)"

fun mapM :: "('a \<Rightarrow> exn + 'b) \<Rightarrow> 'a list \<Rightarrow> exn + 'b list" where
  "mapM f [] = Inr []"
| "mapM f (x # xs) = rbind (f x) (\<lambda>y. rbind (mapM f xs) (\<lambda>ys. Inr (y # ys)))"

subsection \<open>The operations the extractors apply to JSON values\<close>

text \<open>\<open>k in s\<close> for two strings: \<open>k\<close> is a substring of \<open>s\<close>.\<close>

fun py_str_contains :: "string \<Rightarrow> string \<Rightarrow> bool" where
  "py_str_contains k [] = (k = [])"
| "py_str_contains k (c # s) = (take (length k) (c # s) = k \<or> py_str_contains k s)"

text \<open>\<open>k in d\<close> for a string \<open>k\<close>: a key of a dict, an element of a list, a substring of
  a string; \<open>TypeError\<close> on a number, a boolean or \<open>None\<close>.\<close>

fun py_in :: "string \<Rightarrow> json \<Rightarrow> exn + bool" where
  "py_in k (JObj kvs) = Inr (map_of kvs k \<noteq> None)"
| "py_in k (JArr xs) = Inr (JStr k \<in> set xs)"
| "py_in k (JStr s) = Inr (py_str_contains k s)"
| "py_in k _ = Inl TypeError"

text \<open>\<open>d[k]\<close> for a string \<open>k\<close>: \<open>KeyError\<close> on a dict without the key, \<open>TypeError\<close> on
  everything that is not a dict.\<close>

fun py_getitem :: "json \<Rightarrow> string \<Rightarrow> exn + json" where
  "py_getitem (JObj kvs) k = (case map_of kvs k of None \<Rightarrow> Inl (KeyError k) | Some v \<Rightarrow> Inr v)"
| "py_getitem _ k = Inl TypeError"

text \<open>\<open>d.get(k, default)\<close> (\<open>d.get(k)\<close> is \<open>py_get d k JNull\<close>): only a dict has the
  method.\<close>

fun py_get :: "json \<Rightarrow> string \<Rightarrow> json \<Rightarrow> exn + json" where
  "py_get (JObj kvs) k dflt = (case map_of kvs k of None \<Rightarrow> Inr dflt | Some v \<Rightarrow> Inr v)"
| "py_get _ k dflt = Inl AttributeError"

text \<open>\<open>for x in v\<close>: the elements of a list, the keys of a dict, the characters of a
  string; \<open>TypeError\<close> otherwise.\<close>

fun py_iter :: "json \<Rightarrow> exn + json list" where
  "py_iter (JArr xs) = Inr xs"
| "py_iter (JObj kvs) = Inr (map (\<lambda>kv. JStr (fst kv)) kvs)"
| "py_iter (JStr s) = Inr (map (\<lambda>c. JStr [c]) s)"
| "py_iter _ = Inl TypeError"

text \<open>The truth value of \<open>if v:\<close>.\<close>

fun py_truthy :: "json \<Rightarrow> bool" where
  "py_truthy JNull = False"
| "py_truthy (JBool b) = b"
| "py_truthy (JInt n) = (n \<noteq> 0)"
| "py_truthy (JFloat f) = (f \<noteq> Fin 0)"
| "py_truthy (JStr s) = (s \<noteq> [])"
| "py_truthy (JArr xs) = (xs \<noteq> [])"
| "py_truthy (JObj kvs) = (kvs \<noteq> [])"

fun is_list :: "json \<Rightarrow> bool" where
  "is_list (JArr xs) = True"
| "is_list _ = False"

fun is_dict :: "json \<Rightarrow> bool" where
  "is_dict (JObj kvs) = True"
| "is_dict _ = False"

text \<open>\<open>float(n)\<close> of an int and \<open>a / b\<close> of two ints (\<open>b > 0\<close>): correctly rounded,
  \<open>OverflowError\<close> where the result would not be finite.\<close>

definition float_of_int :: "int \<Rightarrow> exn + pyfloat" where
  "float_of_int n =
     (case round_binary64 (of_int n) of Fin r \<Rightarrow> Inr (Fin r) | _ \<Rightarrow> Inl OverflowError)"

definition int_truediv :: "int \<Rightarrow> int \<Rightarrow> exn + pyfloat" where
  "int_truediv a b =
     (case round_binary64 (of_int a / of_int b) of
        Fin r \<Rightarrow> Inr (Fin r) | _ \<Rightarrow> Inl OverflowError)"

text \<open>\<open>x / 1e7\<close>: an int (a bool is one) is converted to a float first.\<close>

fun py_div_1e7 :: "json \<Rightarrow> exn + pyfloat" where
  "py_div_1e7 (JInt n) = rbind (float_of_int n) (\<lambda>f. Inr (float_div f (10 ^ 7)))"
| "py_div_1e7 (JBool b) = Inr (float_div (Fin (if b then 1 else 0)) (10 ^ 7))"
| "py_div_1e7 (JFloat f) = Inr (float_div f (10 ^ 7))"
| "py_div_1e7 _ = Inl TypeError"

text \<open>\<open>x / 10**6\<close>: int by int is the true division of ints.\<close>

fun py_div_10_6 :: "json \<Rightarrow> exn + pyfloat" where
  "py_div_10_6 (JInt n) = int_truediv n (10 ^ 6)"
| "py_div_10_6 (JBool b) = int_truediv (if b then 1 else 0) (10 ^ 6)"
| "py_div_10_6 (JFloat f) = Inr (float_div f (10 ^ 6))"
| "py_div_10_6 _ = Inl TypeError"

text \<open>\<open>int(x)\<close> of a float truncates toward zero; \<open>round(x)\<close> rounds half to even.\<close>

definition trunc_toward_zero :: "rat \<Rightarrow> int" where
  "trunc_toward_zero q = (if 0 \<le> q then \<lfloor>q\<rfloor> else \<lceil>q\<rceil>)"

fun py_int_of_float :: "pyfloat \<Rightarrow> exn + int" where
  "py_int_of_float (Fin q) = Inr (trunc_toward_zero q)"
| "py_int_of_float NaN = Inl ValueError"
| "py_int_of_float _ = Inl OverflowError"

fun py_round :: "pyfloat \<Rightarrow> exn + int" where
  "py_round (Fin q) = Inr (round_half_even q)"
| "py_round NaN = Inl ValueError"
| "py_round _ = Inl OverflowError"

text \<open>\<open>s.rstrip("s")\<close>.\<close>

definition rstrip_s :: "string \<Rightarrow> string" where
  "rstrip_s s = rev (dropWhile (\<lambda>c. c = CHR ''s'') (rev s))"

subsection \<open>Datetimes\<close>

text \<open>
  A datetime is kept as its count of microseconds from 1970-01-01T00:00:00: of the
  naive fields for a naive one, of the UTC instant for an aware one in UTC.  The years
  1 to 9999 are the counts from \<open>min_us\<close> up to, not including, \<open>max_us\<close>.
\<close>

datatype naive_datetime = Naive int

datatype datetime = Aware int

text \<open>The microseconds of an aware datetime from the epoch, and the epoch second they
  lie in.\<close>

fun epoch_us :: "datetime \<Rightarrow> int" where
  "epoch_us (Aware n) = n"

definition epoch_second :: "datetime \<Rightarrow> int" where
  "epoch_second d = epoch_us d div 10 ^ 6"

text \<open>The instants from the epoch up to \<open>2^33\<close> seconds after it (1970-01-01 to
  2242-03-16T12:56:32, not included): there the doubles are less than half a
  microsecond apart.\<close>

definition exact_us :: "int \<Rightarrow> bool" where
  "exact_us n = (0 \<le> n \<and> n < 2 ^ 33 * 10 ^ 6)"

text \<open>The days from 1970-01-01 to the day \<open>d\<close> of the month \<open>m\<close> of the year \<open>y\<close>, in
  the proleptic Gregorian calendar.\<close>

definition days_from_civil :: "int \<Rightarrow> int \<Rightarrow> int \<Rightarrow> int" where
  "days_from_civil y m d =
     (let y' = (if m \<le> 2 then y - 1 else y);
          era = y' div 400;
          yoe = y' - era * 400;
          doy = (153 * (if 2 < m then m - 3 else m + 9) + 2) div 5 + d - 1;
          doe = yoe * 365 + yoe div 4 - yoe div 100 + doy
      in era * 146097 + doe - 719468)"

definition min_us :: int where
  "min_us = - 62135596800 * 10 ^ 6"

definition max_us :: int where
  "max_us = 253402300800 * 10 ^ 6"

text \<open>
  The seconds that \<open>gmtime\<close> of the C library (glibc, 64-bit \<open>time_t\<close>) converts: those
  of the years \<open>y\<close> whose \<open>tm_year = y - 1900\<close> fits a 32-bit \<open>int\<close>, from the first
  second of the year \<open>1900 - 2^31\<close> up to, not including, the first second of the year
  \<open>1900 + 2^31\<close>.  Outside them it fails with \<open>EOVERFLOW\<close>.
\<close>

definition gmtime_min :: int where
  "gmtime_min = days_from_civil (1900 - 2 ^ 31) 1 1 * 86400"

definition gmtime_max :: int where
  "gmtime_max = days_from_civil (1900 + 2 ^ 31) 1 1 * 86400"

text \<open>
  \<open>datetime.utcfromtimestamp(t)\<close> for a float \<open>t\<close>, as CPython computes it: the
  integral part and the fraction are split exactly, the fraction is multiplied by
  \<open>1e6\<close> in floating point and rounded half to even, and a carry or a borrow moves one
  second.  \<open>ValueError\<close> for NaN, \<open>OverflowError\<close> outside \<open>time_t\<close>, \<open>OSError\<close> where
  \<open>gmtime\<close> fails, and \<open>ValueError\<close> for a year outside 1 to 9999, in this order.
\<close>

definition utcfromtimestamp :: "pyfloat \<Rightarrow> exn + naive_datetime" where
  "utcfromtimestamp t =
     (case t of
        NaN \<Rightarrow> Inl ValueError
      | PInf \<Rightarrow> Inl OverflowError
      | NInf \<Rightarrow> Inl OverflowError
      | Fin d \<Rightarrow>
          (let intpart = trunc_toward_zero d
           in case float_mul (Fin (d - of_int intpart)) (10 ^ 6) of
                Fin fp \<Rightarrow>
                  (let r = round_half_even fp;
                       sec = (if 10 ^ 6 \<le> r then intpart + 1
                              else if r < 0 then intpart - 1 else intpart);
                       us = (if 10 ^ 6 \<le> r then r - 10 ^ 6
                             else if r < 0 then r + 10 ^ 6 else r)
                   in if sec < - (2 ^ 63) \<or> 2 ^ 63 \<le> sec then Inl OverflowError
                      else if sec < gmtime_min \<or> gmtime_max \<le> sec then Inl OSError
                      else if sec * 10 ^ 6 + us < min_us \<or> max_us \<le> sec * 10 ^ 6 + us
                      then Inl ValueError
                      else Inr (Naive (sec * 10 ^ 6 + us)))
              | _ \<Rightarrow> Inl OverflowError))"

text \<open>\<open>d.replace(tzinfo=timezone.utc)\<close> on a naive datetime.\<close>

fun replace_tzinfo_utc :: "naive_datetime \<Rightarrow> datetime" where
  "replace_tzinfo_utc (Naive n) = Aware n"

text \<open>\<open>d.timestamp()\<close> of an aware datetime is \<open>(d - epoch).total_seconds()\<close>, the true
  division of the microseconds by \<open>10**6\<close>; \<open>int_timestamp\<close> is \<open>int(d.timestamp())\<close>.\<close>

fun timestamp :: "datetime \<Rightarrow> exn + pyfloat" where
  "timestamp (Aware n) = int_truediv n (10 ^ 6)"

definition int_timestamp :: "datetime \<Rightarrow> exn + int" where
  "int_timestamp d = rbind (timestamp d) py_int_of_float"

text \<open>The aware datetime \<open>datetime(y, m, d, hh, mm, ss, us, tzinfo=timezone.utc)\<close> of a
  valid civil date and time.\<close>

definition utc_datetime :: "int \<Rightarrow> int \<Rightarrow> int \<Rightarrow> int \<Rightarrow> int \<Rightarrow> int \<Rightarrow> int \<Rightarrow> datetime" where
  "utc_datetime y m d hh mm ss us =
     Aware ((((days_from_civil y m d * 24 + hh) * 60 + mm) * 60 + ss) * 10 ^ 6 + us)"

section \<open>The modules that are not among the sources\<close>

text \<open>
  \<open>time_utils.parse_json_utc_date\<close>, \<open>time_utils.parse_datetime_millis\<close> and
  \<open>http_allowlist.convert_to_https_opt\<close> are imported by \<open>parse_json.py\<close> and
  \<open>models.py\<close>, and their code is not in the sources: the extractors take them as
  parameters, each a function that returns or raises.  The datetimes they return are
  aware and in UTC.  \<open>float_of_str\<close> is Python's \<open>float(s)\<close> for a string, whose
  grammar is not reproduced here.
\<close>

record deps =
  parse_json_utc_date :: "json \<Rightarrow> exn + datetime"
  parse_datetime_millis :: "json \<Rightarrow> exn + datetime"
  convert_to_https_opt :: "json \<Rightarrow> exn + json"
  float_of_str :: "string \<Rightarrow> exn + pyfloat"

text \<open>\<open>float(x)\<close>.\<close>

fun py_float :: "deps \<Rightarrow> json \<Rightarrow> exn + pyfloat" where
  "py_float D (JInt n) = float_of_int n"
| "py_float D (JBool b) = Inr (Fin (if b then 1 else 0))"
| "py_float D (JFloat f) = Inr f"
| "py_float D (JStr s) = float_of_str D s"
| "py_float D _ = Inl TypeError"

section \<open>models.py\<close>

text \<open>
  A dataclass is a record.  Python checks no field type when it builds one, so a field
  the extractor fills with a value taken from the document holds any JSON value; a
  field it computes holds what the computation returns.
\<close>

datatype Subtitles = Subtitles (Subtitles_name: json) (Subtitles_url: json)

datatype LocationInfo =
  LocationInfo (LocationInfo_name: json) (LocationInfo_url: json)
    (LocationInfo_source: json) (LocationInfo_sourceUrl: json)

record Activity =
  Activity_header :: json
  Activity_title :: json
  Activity_time :: datetime
  Activity_description :: json
  Activity_titleUrl :: json
  Activity_subtitles :: "Subtitles list"
  Activity_details :: "json list"
  Activity_locationInfos :: "LocationInfo list"
  Activity_products :: json

text \<open>\<open>link\<close> is \<open>"https://youtube.com/watch?v={}".format(videoId)\<close>; the field keeps the
  video id that is formatted into the fixed prefix.\<close>

record LikedYoutubeVideo =
  LikedYoutubeVideo_title :: json
  LikedYoutubeVideo_desc :: json
  LikedYoutubeVideo_link :: json
  LikedYoutubeVideo_dt :: datetime

record PlayStoreAppInstall =
  PlayStoreAppInstall_title :: json
  PlayStoreAppInstall_dt :: datetime
  PlayStoreAppInstall_device_name :: json

record Location =
  Location_lat :: pyfloat
  Location_lng :: pyfloat
  Location_accuracy :: "pyfloat option"
  Location_dt :: datetime

record CandidateLocation =
  CandidateLocation_lat :: pyfloat
  CandidateLocation_lng :: pyfloat
  CandidateLocation_address :: json
  CandidateLocation_name :: json
  CandidateLocation_placeId :: json
  CandidateLocation_locationConfidence :: json
  CandidateLocation_sourceInfoDeviceTag :: json

record PlaceVisit =
  PlaceVisit_lat :: pyfloat
  PlaceVisit_lng :: pyfloat
  PlaceVisit_centerLat :: "pyfloat option"
  PlaceVisit_centerLng :: "pyfloat option"
  PlaceVisit_address :: json
  PlaceVisit_name :: json
  PlaceVisit_locationConfidence :: json
  PlaceVisit_placeId :: json
  PlaceVisit_startTime :: datetime
  PlaceVisit_endTime :: datetime
  PlaceVisit_sourceInfoDeviceTag :: json
  PlaceVisit_otherCandidateLocations :: "CandidateLocation list"
  PlaceVisit_placeConfidence :: json
  PlaceVisit_placeVisitType :: json
  PlaceVisit_visitConfidence :: json
  PlaceVisit_editConfirmationStatus :: json
  PlaceVisit_placeVisitImportance :: json

record ActivitySegmentActivity =
  ActivitySegmentActivity_activityType :: json
  ActivitySegmentActivity_probability :: json

record Waypoint =
  Waypoint_lat :: pyfloat
  Waypoint_lng :: pyfloat

record RoadSegment =
  RoadSegment_placeId :: json
  RoadSegment_duration :: "pyfloat option"

record WaypointPath =
  WaypointPath_waypoints :: "Waypoint list"
  WaypointPath_source :: json
  WaypointPath_roadSegment :: "RoadSegment list option"
  WaypointPath_distanceMeters :: json
  WaypointPath_travelMode :: json
  WaypointPath_confidence :: json

record RawPathPoint =
  RawPathPoint_lat :: pyfloat
  RawPathPoint_lng :: pyfloat
  RawPathPoint_accuracyMeters :: json
  RawPathPoint_timestamp :: datetime

record SimplifiedRawPath =
  SimplifiedRawPath_points :: "RawPathPoint list"

record ActivitySegment =
  ActivitySegment_startTime :: datetime
  ActivitySegment_endTime :: datetime
  ActivitySegment_distance :: json
  ActivitySegment_confidence :: json
  ActivitySegment_activities :: "ActivitySegmentActivity list"
  ActivitySegment_simplifiedRawPath :: SimplifiedRawPath
  ActivitySegment_waypointPath :: "WaypointPath option"
  ActivitySegment_activityType :: json
  ActivitySegment_startLat :: "pyfloat option"
  ActivitySegment_startLng :: "pyfloat option"
  ActivitySegment_endLat :: "pyfloat option"
  ActivitySegment_endLng :: "pyfloat option"
  ActivitySegment_editConfirmationStatus :: json

record ChromeHistory =
  ChromeHistory_title :: json
  ChromeHistory_url :: json
  ChromeHistory_dt :: datetime

subsection \<open>The \<open>key\<close> properties\<close>

text \<open>Each is a property that computes \<open>int(d.timestamp())\<close>, so it returns or raises.\<close>

definition Activity_key :: "Activity \<Rightarrow> exn + json \<times> json \<times> int" where
  "Activity_key a =
     rbind (int_timestamp (Activity_time a)) (\<lambda>t. Inr (Activity_header a, Activity_title a, t))"

definition LikedYoutubeVideo_key :: "LikedYoutubeVideo \<Rightarrow> exn + int" where
  "LikedYoutubeVideo_key v = int_timestamp (LikedYoutubeVideo_dt v)"

definition PlayStoreAppInstall_key :: "PlayStoreAppInstall \<Rightarrow> exn + int" where
  "PlayStoreAppInstall_key v = int_timestamp (PlayStoreAppInstall_dt v)"

definition Location_key :: "Location \<Rightarrow> exn + pyfloat \<times> pyfloat \<times> pyfloat option \<times> int" where
  "Location_key l =
     rbind (int_timestamp (Location_dt l))
       (\<lambda>t. Inr (Location_lat l, Location_lng l, Location_accuracy l, t))"

definition PlaceVisit_key :: "PlaceVisit \<Rightarrow> exn + pyfloat \<times> pyfloat \<times> int \<times> json" where
  "PlaceVisit_key v =
     rbind (int_timestamp (PlaceVisit_startTime v))
       (\<lambda>t. Inr (PlaceVisit_lat v, PlaceVisit_lng v, t, PlaceVisit_visitConfidence v))"

definition ActivitySegment_key :: "ActivitySegment \<Rightarrow> exn + int \<times> int \<times> json" where
  "ActivitySegment_key s =
     rbind (int_timestamp (ActivitySegment_startTime s)) (\<lambda>t0.
     rbind (int_timestamp (ActivitySegment_endTime s)) (\<lambda>t1.
     Inr (t0, t1, ActivitySegment_distance s)))"

definition ChromeHistory_key :: "ChromeHistory \<Rightarrow> exn + json \<times> int" where
  "ChromeHistory_key h =
     rbind (int_timestamp (ChromeHistory_dt h)) (\<lambda>t. Inr (ChromeHistory_url h, t))"

subsection \<open>The \<open>from_dict\<close> constructors\<close>

text \<open>The keyword arguments of a constructor call are evaluated in the order they are
  written, and the first one that raises ends the call.\<close>

definition CandidateLocation_from_dict :: "json \<Rightarrow> exn + CandidateLocation" where
  "CandidateLocation_from_dict data =
     rbind (py_get data ''address'' JNull) (\<lambda>address.
     rbind (py_get data ''name'' JNull) (\<lambda>name.
     rbind (py_get data ''placeId'' JNull) (\<lambda>placeId.
     rbind (py_get data ''locationConfidence'' JNull) (\<lambda>locationConfidence.
     rbind (rbind (py_getitem data ''latitudeE7'') py_div_1e7) (\<lambda>lat.
     rbind (rbind (py_getitem data ''longitudeE7'') py_div_1e7) (\<lambda>lng.
     rbind (rbind (py_get data ''sourceInfo'' (JObj [])) (\<lambda>si. py_get si ''deviceTag'' JNull))
       (\<lambda>deviceTag.
     Inr \<lparr>CandidateLocation_lat = lat, CandidateLocation_lng = lng,
          CandidateLocation_address = address, CandidateLocation_name = name,
          CandidateLocation_placeId = placeId,
          CandidateLocation_locationConfidence = locationConfidence,
          CandidateLocation_sourceInfoDeviceTag = deviceTag\<rparr>)))))))"

definition ActivitySegmentActivity_from_dict :: "json \<Rightarrow> exn + ActivitySegmentActivity" where
  "ActivitySegmentActivity_from_dict data =
     rbind (py_getitem data ''activityType'') (\<lambda>activityType.
     rbind (py_getitem data ''probability'') (\<lambda>probability.
     Inr \<lparr>ActivitySegmentActivity_activityType = activityType,
          ActivitySegmentActivity_probability = probability\<rparr>))"

definition Waypoint_from_dict :: "json \<Rightarrow> exn + Waypoint" where
  "Waypoint_from_dict data =
     rbind (rbind (py_getitem data ''latE7'') py_div_1e7) (\<lambda>lat.
     rbind (rbind (py_getitem data ''lngE7'') py_div_1e7) (\<lambda>lng.
     Inr \<lparr>Waypoint_lat = lat, Waypoint_lng = lng\<rparr>))"

text \<open>\<open>float(data["duration"].rstrip("s")) if "duration" in data else None\<close>: only a
  string has \<open>rstrip\<close>.\<close>

fun road_duration :: "deps \<Rightarrow> json \<Rightarrow> exn + pyfloat" where
  "road_duration D (JStr s) = float_of_str D (rstrip_s s)"
| "road_duration D _ = Inl AttributeError"

definition RoadSegment_from_dict :: "deps \<Rightarrow> json \<Rightarrow> exn + RoadSegment" where
  "RoadSegment_from_dict D data =
     rbind (py_getitem data ''placeId'') (\<lambda>placeId.
     rbind (py_in ''duration'' data) (\<lambda>has.
     rbind (if has
            then rbind (rbind (py_getitem data ''duration'') (road_duration D)) (\<lambda>f. Inr (Some f))
            else Inr None) (\<lambda>duration.
     Inr \<lparr>RoadSegment_placeId = placeId, RoadSegment_duration = duration\<rparr>)))"

definition WaypointPath_from_dict :: "deps \<Rightarrow> json \<Rightarrow> exn + WaypointPath" where
  "WaypointPath_from_dict D data =
     rbind (py_get data ''roadSegment'' JNull) (\<lambda>rs.
     rbind (if py_truthy rs
            then rbind (py_getitem data ''roadSegment'') (\<lambda>v.
                 rbind (py_iter v) (\<lambda>ds.
                 rbind (mapM (RoadSegment_from_dict D) ds) (\<lambda>segs. Inr (Some segs))))
            else Inr None) (\<lambda>roadSegment.
     rbind (rbind (py_getitem data ''waypoints'') (\<lambda>v.
            rbind (py_iter v) (mapM Waypoint_from_dict))) (\<lambda>waypoints.
     rbind (py_getitem data ''source'') (\<lambda>source.
     rbind (py_get data ''distanceMeters'' JNull) (\<lambda>distanceMeters.
     rbind (py_get data ''travelMode'' JNull) (\<lambda>travelMode.
     rbind (py_get data ''confidence'' JNull) (\<lambda>confidence.
     Inr \<lparr>WaypointPath_waypoints = waypoints, WaypointPath_source = source,
          WaypointPath_roadSegment = roadSegment,
          WaypointPath_distanceMeters = distanceMeters,
          WaypointPath_travelMode = travelMode,
          WaypointPath_confidence = confidence\<rparr>)))))))"

definition RawPathPoint_from_dict :: "deps \<Rightarrow> json \<Rightarrow> exn + RawPathPoint" where
  "RawPathPoint_from_dict D data =
     rbind (rbind (py_getitem data ''latE7'') py_div_1e7) (\<lambda>lat.
     rbind (rbind (py_getitem data ''lngE7'') py_div_1e7) (\<lambda>lng.
     rbind (py_getitem data ''accuracyMeters'') (\<lambda>accuracyMeters.
     rbind (rbind (py_getitem data ''timestamp'') (parse_json_utc_date D)) (\<lambda>ts.
     Inr \<lparr>RawPathPoint_lat = lat, RawPathPoint_lng = lng,
          RawPathPoint_accuracyMeters = accuracyMeters, RawPathPoint_timestamp = ts\<rparr>))))"

definition SimplifiedRawPath_from_list :: "deps \<Rightarrow> json \<Rightarrow> exn + SimplifiedRawPath" where
  "SimplifiedRawPath_from_list D data =
     rbind (rbind (py_iter data) (mapM (RawPathPoint_from_dict D))) (\<lambda>points.
     Inr \<lparr>SimplifiedRawPath_points = points\<rparr>)"

section \<open>parse_json.py\<close>

text \<open>
  An extractor is a generator over the parsed document.  What a consumer sees of it is
  the list of the outcomes it yields, each an event (\<open>Inr\<close>) or a captured exception
  (\<open>Inl\<close>), and the exception that ends the iteration when one escapes the generator
  (\<open>None\<close> when it runs to its end).  The document is the value of
  \<open>json.loads(p.read_text())\<close>; reading and decoding the file are not modelled.
\<close>

type_synonym 'a generator = "(exn + 'a) list \<times> exn option"

subsection \<open>\<open>_parse_json_activity\<close>\<close>

text \<open>One pass of the subtitles loop: a dict with a \<open>name\<close> appends one entry, anything
  else is skipped.\<close>

fun subtitle_entries :: "json \<Rightarrow> Subtitles list" where
  "subtitle_entries (JObj kvs) =
     (case map_of kvs ''name'' of
        None \<Rightarrow> []
      | Some n \<Rightarrow> [Subtitles n (case map_of kvs ''url'' of None \<Rightarrow> JNull | Some u \<Rightarrow> u)])"
| "subtitle_entries _ = []"

text \<open>\<open>[d["name"] for d in ... if isinstance(d, dict) and "name" in d]\<close>, one element.\<close>

fun detail_entries :: "json \<Rightarrow> json list" where
  "detail_entries (JObj kvs) = (case map_of kvs ''name'' of None \<Rightarrow> [] | Some n \<Rightarrow> [n])"
| "detail_entries _ = []"

definition location_info :: "deps \<Rightarrow> json \<Rightarrow> exn + LocationInfo" where
  "location_info D locinfo =
     rbind (py_get locinfo ''name'' JNull) (\<lambda>name.
     rbind (rbind (py_get locinfo ''url'' JNull) (convert_to_https_opt D)) (\<lambda>url.
     rbind (py_get locinfo ''source'' JNull) (\<lambda>source.
     rbind (rbind (py_get locinfo ''sourceUrl'' JNull) (convert_to_https_opt D)) (\<lambda>sourceUrl.
     Inr (LocationInfo name url source sourceUrl)))))"

text \<open>The subtitles of a record: the loop over \<open>blob.get("subtitles", [])\<close>.\<close>

definition blob_subtitles :: "json \<Rightarrow> exn + Subtitles list" where
  "blob_subtitles blob =
     rbind (py_get blob ''subtitles'' (JArr [])) (\<lambda>v.
     rbind (py_iter v) (\<lambda>ss. Inr (concat (map subtitle_entries ss))))"

text \<open>The body of the \<open>try\<close> for one record: the event, or the exception the
  \<open>except\<close> clause yields in its place.\<close>

definition activity_of_blob :: "deps \<Rightarrow> json \<Rightarrow> exn + Activity" where
  "activity_of_blob D blob0 =
     rbind (blob_subtitles blob0) (\<lambda>subtitles.
     rbind (py_in ''snippet'' blob0) (\<lambda>old_format.
     rbind (if old_format then py_getitem blob0 ''snippet'' else Inr blob0) (\<lambda>blob.
     rbind (if old_format then Inr (JStr ''YouTube'') else py_getitem blob ''header'') (\<lambda>header.
     rbind (py_getitem blob (if old_format then ''publishedAt'' else ''time'')) (\<lambda>time_str.
     rbind (py_getitem blob ''title'') (\<lambda>title.
     rbind (rbind (py_get blob ''titleUrl'' JNull) (convert_to_https_opt D)) (\<lambda>titleUrl.
     rbind (py_get blob ''description'' JNull) (\<lambda>description.
     rbind (parse_json_utc_date D time_str) (\<lambda>time.
     rbind (rbind (py_get blob ''details'' (JArr [])) py_iter) (\<lambda>ds.
     rbind (rbind (rbind (py_get blob ''locationInfos'' (JArr [])) py_iter)
              (mapM (location_info D))) (\<lambda>locationInfos.
     rbind (py_get blob ''products'' (JArr [])) (\<lambda>products.
     Inr \<lparr>Activity_header = header, Activity_title = title, Activity_time = time,
          Activity_description = description, Activity_titleUrl = titleUrl,
          Activity_subtitles = subtitles,
          Activity_details = concat (map detail_entries ds),
          Activity_locationInfos = locationInfos,
          Activity_products = products\<rparr>))))))))))))"

text \<open>A top level that is not a list yields the error and the loop still runs over
  it: there is no \<open>return\<close> after the \<open>yield\<close>.\<close>

definition parse_json_activity :: "deps \<Rightarrow> json \<Rightarrow> Activity generator" where
  "parse_json_activity D json_data =
     (let pre = (if is_list json_data then [] else [Inl (RuntimeError ActivityTopLevelNotList)])
      in case py_iter json_data of
           Inl e \<Rightarrow> (pre, Some e)
         | Inr blobs \<Rightarrow> (pre @ map (activity_of_blob D) blobs, None))"

subsection \<open>\<open>_parse_likes\<close> and \<open>_parse_app_installs\<close>\<close>

definition like_of_json :: "deps \<Rightarrow> json \<Rightarrow> exn + LikedYoutubeVideo" where
  "like_of_json D jlike =
     rbind (rbind (py_getitem jlike ''snippet'') (\<lambda>sn. py_getitem sn ''title'')) (\<lambda>title.
     rbind (rbind (py_getitem jlike ''snippet'') (\<lambda>sn. py_getitem sn ''description'')) (\<lambda>desc.
     rbind (rbind (py_getitem jlike ''contentDetails'') (\<lambda>cd. py_getitem cd ''videoId''))
       (\<lambda>videoId.
     rbind (rbind (rbind (py_getitem jlike ''snippet'') (\<lambda>sn. py_getitem sn ''publishedAt''))
              (parse_json_utc_date D)) (\<lambda>dt.
     Inr \<lparr>LikedYoutubeVideo_title = title, LikedYoutubeVideo_desc = desc,
          LikedYoutubeVideo_link = videoId, LikedYoutubeVideo_dt = dt\<rparr>))))"

definition parse_likes :: "deps \<Rightarrow> json \<Rightarrow> LikedYoutubeVideo generator" where
  "parse_likes D json_data =
     (let pre = (if is_list json_data then [] else [Inl (RuntimeError LikesTopLevelNotList)])
      in case py_iter json_data of
           Inl e \<Rightarrow> (pre, Some e)
         | Inr jlikes \<Rightarrow> (pre @ map (like_of_json D) jlikes, None))"

definition app_install_of_json :: "deps \<Rightarrow> json \<Rightarrow> exn + PlayStoreAppInstall" where
  "app_install_of_json D japp =
     rbind (rbind (rbind (py_getitem japp ''install'') (\<lambda>i. py_getitem i ''doc''))
              (\<lambda>d. py_getitem d ''title'')) (\<lambda>title.
     rbind (rbind (rbind (py_getitem japp ''install'') (\<lambda>i. py_getitem i ''deviceAttribute''))
              (\<lambda>a. py_get a ''deviceDisplayName'' JNull)) (\<lambda>device_name.
     rbind (rbind (rbind (py_getitem japp ''install'')
                     (\<lambda>i. py_getitem i ''firstInstallationTime''))
              (parse_json_utc_date D)) (\<lambda>dt.
     Inr \<lparr>PlayStoreAppInstall_title = title, PlayStoreAppInstall_dt = dt,
          PlayStoreAppInstall_device_name = device_name\<rparr>)))"

definition parse_app_installs :: "deps \<Rightarrow> json \<Rightarrow> PlayStoreAppInstall generator" where
  "parse_app_installs D json_data =
     (let pre = (if is_list json_data then []
                 else [Inl (RuntimeError AppInstallsTopLevelNotList)])
      in case py_iter json_data of
           Inl e \<Rightarrow> (pre, Some e)
         | Inr japps \<Rightarrow> (pre @ map (app_install_of_json D) japps, None))"

subsection \<open>\<open>_parse_timestamp_key\<close> and \<open>_parse_location_history\<close>\<close>

definition parse_timestamp_key :: "deps \<Rightarrow> json \<Rightarrow> string \<Rightarrow> exn + datetime" where
  "parse_timestamp_key D d key =
     rbind (py_in (key @ ''Ms'') d) (\<lambda>has_ms.
     if has_ms then rbind (py_getitem d (key @ ''Ms'')) (parse_datetime_millis D)
     else rbind (py_getitem d key) (parse_json_utc_date D))"

text \<open>The body of the \<open>try\<close> for one location, given the \<open>accuracy\<close> read before it.\<close>

definition location_of_json :: "deps \<Rightarrow> json \<Rightarrow> json \<Rightarrow> exn + Location" where
  "location_of_json D loc accuracy =
     rbind (rbind (rbind (py_getitem loc ''longitudeE7'') (py_float D))
              (\<lambda>f. Inr (float_div f (10 ^ 7)))) (\<lambda>lng.
     rbind (rbind (rbind (py_getitem loc ''latitudeE7'') (py_float D))
              (\<lambda>f. Inr (float_div f (10 ^ 7)))) (\<lambda>lat.
     rbind (parse_timestamp_key D loc ''timestamp'') (\<lambda>dt.
     rbind (if accuracy = JNull then Inr None
            else rbind (py_float D accuracy) (\<lambda>f. Inr (Some f))) (\<lambda>acc.
     Inr \<lparr>Location_lat = lat, Location_lng = lng, Location_accuracy = acc,
          Location_dt = dt\<rparr>))))"

text \<open>
  The loop over the locations.  \<open>accuracy = loc.get("accuracy")\<close> stands before the
  \<open>try\<close>: where it raises, the exception leaves the generator and the iteration ends.
\<close>

fun location_loop :: "deps \<Rightarrow> json list \<Rightarrow> Location generator" where
  "location_loop D [] = ([], None)"
| "location_loop D (loc # locs) =
     (case py_get loc ''accuracy'' JNull of
        Inl e \<Rightarrow> ([], Some e)
      | Inr accuracy \<Rightarrow>
          (case location_loop D locs of
             (out, r) \<Rightarrow> (location_of_json D loc accuracy # out, r)))"

definition parse_location_history :: "deps \<Rightarrow> json \<Rightarrow> Location generator" where
  "parse_location_history D json_data =
     (case py_in ''locations'' json_data of
        Inl e \<Rightarrow> ([], Some e)
      | Inr has \<Rightarrow>
          (let pre = (if has then [] else [Inl (RuntimeError LocationsNoLocationsKey)])
           in case rbind (py_get json_data ''locations'' (JArr [])) py_iter of
                Inl e \<Rightarrow> (pre, Some e)
              | Inr locs \<Rightarrow> (case location_loop D locs of (out, r) \<Rightarrow> (pre @ out, r))))"

subsection \<open>\<open>_parse_chrome_history\<close>\<close>

definition chrome_item :: "json \<Rightarrow> exn + ChromeHistory" where
  "chrome_item item =
     rbind (rbind (rbind (py_getitem item ''time_usec'') py_div_10_6) utcfromtimestamp)
       (\<lambda>time_naive.
     rbind (py_getitem item ''title'') (\<lambda>title.
     rbind (py_getitem item ''url'') (\<lambda>url.
     Inr \<lparr>ChromeHistory_title = title, ChromeHistory_url = url,
          ChromeHistory_dt = replace_tzinfo_utc time_naive\<rparr>)))"

definition parse_chrome_history :: "json \<Rightarrow> ChromeHistory generator" where
  "parse_chrome_history json_data =
     (case py_in ''Browser History'' json_data of
        Inl e \<Rightarrow> ([], Some e)
      | Inr has \<Rightarrow>
          (let pre = (if has then [] else [Inl (RuntimeError ChromeNoBrowserHistoryKey)])
           in case rbind (py_get json_data ''Browser History'' (JArr [])) py_iter of
                Inl e \<Rightarrow> (pre, Some e)
              | Inr items \<Rightarrow> (pre @ map chrome_item items, None)))"

subsection \<open>\<open>_parse_semantic_location_history\<close> and its two sub-builders\<close>

definition sem_required_keys :: "string list" where
  "sem_required_keys = [''location'', ''duration'']"

definition sem_required_location_keys :: "string list" where
  "sem_required_location_keys = [''placeId'', ''latitudeE7'', ''longitudeE7'']"

definition sem_activity_segment_required_keys :: "string list" where
  "sem_activity_segment_required_keys = [''duration'', ''activities'']"

text \<open>The first required key that is not in \<open>d\<close>, or \<open>None\<close>.\<close>

fun check_required_keys :: "json \<Rightarrow> string list \<Rightarrow> exn + string option" where
  "check_required_keys d [] = Inr None"
| "check_required_keys d (k # ks) =
     rbind (py_in k d) (\<lambda>found. if found then check_required_keys d ks else Inr (Some k))"

text \<open>The \<open>except\<close> clause of both sub-builders: a \<open>KeyError\<close> is raised again as a
  \<open>RuntimeError\<close> that names the key, any other exception as it is.\<close>

fun reraise :: "(string \<Rightarrow> message) \<Rightarrow> exn + 'a \<Rightarrow> exn + 'a" where
  "reraise msg (Inl (KeyError k)) = Inl (RuntimeError (msg k))"
| "reraise msg r = r"

text \<open>\<open>float(d[k]) / 1e7 if k in d else None\<close>.\<close>

definition optional_e7 :: "deps \<Rightarrow> json \<Rightarrow> string \<Rightarrow> exn + pyfloat option" where
  "optional_e7 D d k =
     rbind (py_in k d) (\<lambda>has.
     if has
     then rbind (rbind (py_getitem d k) (py_float D)) (\<lambda>f. Inr (Some (float_div f (10 ^ 7))))
     else Inr None)"

text \<open>The \<open>try\<close> block of \<open>_parse_place_visit\<close>; \<open>Inr None\<close> is its \<open>return None\<close>.\<close>

definition place_visit_body :: "deps \<Rightarrow> json \<Rightarrow> exn + PlaceVisit option" where
  "place_visit_body D placeVisit =
     rbind (py_getitem placeVisit ''location'') (\<lambda>location_json.
     rbind (check_required_keys location_json sem_required_location_keys)
       (\<lambda>missing_location_key.
     if missing_location_key \<noteq> None then Inr None
     else
     rbind (CandidateLocation_from_dict location_json) (\<lambda>location.
     rbind (py_getitem placeVisit ''duration'') (\<lambda>duration.
     rbind (rbind (rbind (py_get placeVisit ''otherCandidateLocations'' (JArr [])) py_iter)
              (mapM CandidateLocation_from_dict)) (\<lambda>others.
     rbind (py_get placeVisit ''placeConfidence'' JNull) (\<lambda>placeConfidence.
     rbind (py_get placeVisit ''placeVisitImportance'' JNull) (\<lambda>placeVisitImportance.
     rbind (py_get placeVisit ''placeVisitType'' JNull) (\<lambda>placeVisitType.
     rbind (py_get placeVisit ''visitConfidence'' JNull) (\<lambda>visitConfidence.
     rbind (py_get placeVisit ''editConfirmationStatus'' JNull) (\<lambda>editConfirmationStatus.
     rbind (optional_e7 D placeVisit ''centerLatE7'') (\<lambda>centerLat.
     rbind (optional_e7 D placeVisit ''centerLngE7'') (\<lambda>centerLng.
     rbind (parse_timestamp_key D duration ''startTimestamp'') (\<lambda>startTime.
     rbind (parse_timestamp_key D duration ''endTimestamp'') (\<lambda>endTime.
     Inr (Some
       \<lparr>PlaceVisit_lat = CandidateLocation_lat location,
        PlaceVisit_lng = CandidateLocation_lng location,
        PlaceVisit_centerLat = centerLat,
        PlaceVisit_centerLng = centerLng,
        PlaceVisit_address = CandidateLocation_address location,
        PlaceVisit_name = CandidateLocation_name location,
        PlaceVisit_locationConfidence = CandidateLocation_locationConfidence location,
        PlaceVisit_placeId = CandidateLocation_placeId location,
        PlaceVisit_startTime = startTime,
        PlaceVisit_endTime = endTime,
        PlaceVisit_sourceInfoDeviceTag = CandidateLocation_sourceInfoDeviceTag location,
        PlaceVisit_otherCandidateLocations = others,
        PlaceVisit_placeConfidence = placeConfidence,
        PlaceVisit_placeVisitType = placeVisitType,
        PlaceVisit_visitConfidence = visitConfidence,
        PlaceVisit_editConfirmationStatus = editConfirmationStatus,
        PlaceVisit_placeVisitImportance = placeVisitImportance\<rparr>)))))))))))))))"

definition parse_place_visit :: "deps \<Rightarrow> json \<Rightarrow> exn + PlaceVisit option" where
  "parse_place_visit D placeVisit =
     rbind (check_required_keys placeVisit sem_required_keys) (\<lambda>missing_key.
     case missing_key of
       Some k \<Rightarrow> Inl (RuntimeError (PlaceVisitNoRequiredKey k))
     | None \<Rightarrow> reraise PlaceVisitNoKey (place_visit_body D placeVisit))"

text \<open>\<open>if seg[k]: loc = CandidateLocation.from_dict(seg[k]); lat, lng = loc.lat, loc.lng
  else: lat = lng = None\<close>.\<close>

definition segment_endpoint :: "json \<Rightarrow> string \<Rightarrow> exn + pyfloat option \<times> pyfloat option" where
  "segment_endpoint activitySegment k =
     rbind (py_getitem activitySegment k) (\<lambda>v.
     if py_truthy v
     then rbind (rbind (py_getitem activitySegment k) CandidateLocation_from_dict) (\<lambda>loc.
          Inr (Some (CandidateLocation_lat loc), Some (CandidateLocation_lng loc)))
     else Inr (None, None))"

text \<open>The \<open>try\<close> block of \<open>_parse_activity_segment\<close>.\<close>

definition activity_segment_body :: "deps \<Rightarrow> json \<Rightarrow> exn + ActivitySegment" where
  "activity_segment_body D activitySegment =
     rbind (segment_endpoint activitySegment ''startLocation'') (\<lambda>start.
     rbind (segment_endpoint activitySegment ''endLocation'') (\<lambda>end_loc.
     rbind (rbind (rbind (py_getitem activitySegment ''duration'')
                     (\<lambda>d. py_getitem d ''startTimestamp''))
              (parse_json_utc_date D)) (\<lambda>startTime.
     rbind (rbind (rbind (py_getitem activitySegment ''duration'')
                     (\<lambda>d. py_getitem d ''endTimestamp''))
              (parse_json_utc_date D)) (\<lambda>endTime.
     rbind (py_get activitySegment ''distance'' JNull) (\<lambda>distance.
     rbind (py_get activitySegment ''activityType'' JNull) (\<lambda>activityType.
     rbind (py_get activitySegment ''confidence'' JNull) (\<lambda>confidence.
     rbind (rbind (rbind (py_get activitySegment ''activities'' (JArr [])) py_iter)
              (mapM ActivitySegmentActivity_from_dict)) (\<lambda>activities.
     rbind (rbind (py_in ''waypointPath'' activitySegment) (\<lambda>has.
            if has
            then rbind (rbind (py_getitem activitySegment ''waypointPath'')
                          (WaypointPath_from_dict D)) (\<lambda>w. Inr (Some w))
            else Inr None)) (\<lambda>waypointPath.
     rbind (rbind (rbind (py_get activitySegment ''simplifiedRawPath'' (JObj []))
                     (\<lambda>srp. py_get srp ''points'' (JArr [])))
              (SimplifiedRawPath_from_list D)) (\<lambda>simplifiedRawPath.
     rbind (py_get activitySegment ''editConfirmationStatus'' JNull) (\<lambda>editConfirmationStatus.
     Inr \<lparr>ActivitySegment_startTime = startTime,
          ActivitySegment_endTime = endTime,
          ActivitySegment_distance = distance,
          ActivitySegment_confidence = confidence,
          ActivitySegment_activities = activities,
          ActivitySegment_simplifiedRawPath = simplifiedRawPath,
          ActivitySegment_waypointPath = waypointPath,
          ActivitySegment_activityType = activityType,
          ActivitySegment_startLat = fst start,
          ActivitySegment_startLng = snd start,
          ActivitySegment_endLat = fst end_loc,
          ActivitySegment_endLng = snd end_loc,
          ActivitySegment_editConfirmationStatus = editConfirmationStatus\<rparr>)))))))))))"

definition parse_activity_segment :: "deps \<Rightarrow> json \<Rightarrow> exn + ActivitySegment" where
  "parse_activity_segment D activitySegment =
     rbind (check_required_keys activitySegment sem_activity_segment_required_keys)
       (\<lambda>missing_key.
     case missing_key of
       Some k \<Rightarrow> Inl (RuntimeError (ActivitySegmentNoRequiredKey k))
     | None \<Rightarrow> reraise ActivitySegmentNoKey (activity_segment_body D activitySegment))"

text \<open>
  The events of the semantic extractor, and its local variable \<open>result\<close>: unbound
  until the first assignment, then the last value assigned, which is \<open>None\<close> or an
  event.  The variable is not reset between two passes of the loop.
\<close>

datatype sem_event = PV PlaceVisit | AS ActivitySegment

datatype local_result = Unbound | Bound "sem_event option"

text \<open>\<open>timelineObject.keys()\<close>.\<close>

fun py_keys :: "json \<Rightarrow> exn + string list" where
  "py_keys (JObj kvs) = Inr (map fst kvs)"
| "py_keys _ = Inl AttributeError"

text \<open>\<open>if result is not None: yield result\<close>, reading the variable.\<close>

fun yield_result :: "local_result \<Rightarrow> (exn + sem_event) list" where
  "yield_result Unbound = [Inl UnboundLocalError]"
| "yield_result (Bound None) = []"
| "yield_result (Bound (Some ev)) = [Inr ev]"

text \<open>
  One pass of the loop: the outcomes it yields and the value of \<open>result\<close> after it.  An
  exception raised before the assignment leaves \<open>result\<close> as it was.  The \<open>else\<close>
  branch yields its error and then falls through to the test of \<open>result\<close>; the
  \<open>UnboundLocalError\<close> that test raises is caught by the \<open>except\<close> clause and yielded.
\<close>

definition timeline_step ::
  "deps \<Rightarrow> local_result \<Rightarrow> json \<Rightarrow> (exn + sem_event) list \<times> local_result" where
  "timeline_step D result timelineObject =
     (case py_in ''placeVisit'' timelineObject of
        Inl e \<Rightarrow> ([Inl e], result)
      | Inr True \<Rightarrow>
          (case rbind (py_getitem timelineObject ''placeVisit'') (parse_place_visit D) of
             Inl e \<Rightarrow> ([Inl e], result)
           | Inr r \<Rightarrow> (yield_result (Bound (map_option PV r)), Bound (map_option PV r)))
      | Inr False \<Rightarrow>
          (case py_in ''activitySegment'' timelineObject of
             Inl e \<Rightarrow> ([Inl e], result)
           | Inr True \<Rightarrow>
               (case rbind (py_getitem timelineObject ''activitySegment'')
                       (parse_activity_segment D) of
                  Inl e \<Rightarrow> ([Inl e], result)
                | Inr r \<Rightarrow> (yield_result (Bound (Some (AS r))), Bound (Some (AS r))))
           | Inr False \<Rightarrow>
               (case py_keys timelineObject of
                  Inl e \<Rightarrow> ([Inl e], result)
                | Inr ks \<Rightarrow>
                    (Inl (RuntimeError (UnknownTimelineObject ks)) # yield_result result,
                     result))))"

fun timeline_loop ::
  "deps \<Rightarrow> local_result \<Rightarrow> json list \<Rightarrow> (exn + sem_event) list \<times> local_result" where
  "timeline_loop D result [] = ([], result)"
| "timeline_loop D result (t # ts) =
     (case timeline_step D result t of
        (out, result') \<Rightarrow>
          (case timeline_loop D result' ts of (outs, r) \<Rightarrow> (out @ outs, r)))"

definition parse_semantic_location_history :: "deps \<Rightarrow> json \<Rightarrow> sem_event generator" where
  "parse_semantic_location_history D json_data =
     (let pre1 = (if is_dict json_data then [] else [Inl (RuntimeError SemanticTopLevelNotDict)])
      in case py_in ''timelineObjects'' json_data of
           Inl e \<Rightarrow> (pre1, Some e)
         | Inr has \<Rightarrow>
             (let pre = pre1 @ (if has then []
                                else [Inl (RuntimeError SemanticNoTimelineObjectsKey)])
              in case rbind (py_get json_data ''timelineObjects'' (JArr [])) py_iter of
                   Inl e \<Rightarrow> (pre, Some e)
                 | Inr timelineObjects \<Rightarrow>
                     (pre @ fst (timeline_loop D Unbound timelineObjects), None)))"

section \<open>The missing modules and the inverse of the E7 decode, as the specification words them\<close>

text \<open>
  The inverse of the E7 decode that the specification names, \<open>round(degrees * 1e7)\<close>:
  a float multiplication and Python's \<open>round\<close>.  It is not code of the repository.
\<close>

definition spec_e7_encode :: "pyfloat \<Rightarrow> exn + int" where
  "spec_e7_encode degrees = py_round (float_mul degrees (10 ^ 7))"

text \<open>Decimal digits, and what follows the seconds of a timestamp: \<open>Z\<close>, or a point,
  digits and \<open>Z\<close>, the digits padded or cut to six.\<close>

definition digit_val :: "char \<Rightarrow> int option" where
  "digit_val c =
     (let n = (of_char c :: nat) in if 48 \<le> n \<and> n \<le> 57 then Some (int n - 48) else None)"

definition digits_val :: "string \<Rightarrow> int option" where
  "digits_val s =
     (if s \<noteq> [] \<and> list_all (\<lambda>c. digit_val c \<noteq> None) s
      then Some (foldl (\<lambda>a c. 10 * a + the (digit_val c)) 0 s)
      else None)"

definition fraction_us :: "string \<Rightarrow> int option" where
  "fraction_us t =
     (if t = ''Z'' then Some 0
      else if 3 \<le> length t \<and> hd t = CHR ''.'' \<and> last t = CHR ''Z''
              \<and> digits_val (butlast (tl t)) \<noteq> None
      then digits_val (take 6 (butlast (tl t) @ ''000000''))
      else None)"

text \<open>The civil dates and times of day that exist: the years 1 to 9999 of
  \<open>datetime\<close>, the months with their days, and the hours, minutes and seconds of a day
  (the fields are read from digits, so none is negative).\<close>

definition is_leap_year :: "int \<Rightarrow> bool" where
  "is_leap_year y = (if y mod 100 = 0 then y mod 400 = 0 else y mod 4 = 0)"

definition days_in_month :: "int \<Rightarrow> int \<Rightarrow> int" where
  "days_in_month y m =
     (if m = 2 then (if is_leap_year y then 29 else 28)
      else if m = 4 \<or> m = 6 \<or> m = 9 \<or> m = 11 then 30 else 31)"

definition valid_civil :: "int \<Rightarrow> int \<Rightarrow> int \<Rightarrow> int \<Rightarrow> int \<Rightarrow> int \<Rightarrow> bool" where
  "valid_civil y m d hh mm ss =
     (1 \<le> y \<and> y \<le> 9999 \<and> 1 \<le> m \<and> m \<le> 12 \<and> 1 \<le> d \<and> d \<le> days_in_month y m
      \<and> hh \<le> 23 \<and> mm \<le> 59 \<and> ss \<le> 59)"

text \<open>
  Modelled from the spec: \<open>time_utils.parse_json_utc_date\<close>, which is not among the
  sources.  The specification has it accept an ISO-8601 string with a \<open>Z\<close> suffix and
  optional fractional seconds of any digit count, padded or truncated to microseconds,
  and return the UTC instant.  Here the string is \<open>YYYY-MM-DDThh:mm:ss\<close>, then \<open>Z\<close> or
  a point, digits and \<open>Z\<close>; a string of another shape, or one whose date or time of day
  does not exist, raises \<open>ValueError\<close>.
\<close>

definition spec_parse_json_utc_date :: "json \<Rightarrow> exn + datetime" where
  "spec_parse_json_utc_date j =
     (case j of
        JStr s \<Rightarrow>
          (case (digits_val (take 4 s), digits_val (take 2 (drop 5 s)),
                 digits_val (take 2 (drop 8 s)), digits_val (take 2 (drop 11 s)),
                 digits_val (take 2 (drop 14 s)), digits_val (take 2 (drop 17 s)),
                 fraction_us (drop 19 s)) of
             (Some y, Some m, Some d, Some hh, Some mm, Some ss, Some us) \<Rightarrow>
               if take 1 (drop 4 s) = ''-'' \<and> take 1 (drop 7 s) = ''-''
                  \<and> take 1 (drop 10 s) = ''T'' \<and> take 1 (drop 13 s) = '':''
                  \<and> take 1 (drop 16 s) = '':'' \<and> valid_civil y m d hh mm ss
               then Inr (utc_datetime y m d hh mm ss us)
               else Inl ValueError
           | _ \<Rightarrow> Inl ValueError)
      | _ \<Rightarrow> Inl TypeError)"

text \<open>The UTC instant of the whole second \<open>int(ms / 1000)\<close> after the epoch: the
  quotient is a float and \<open>int\<close> truncates it, so the milliseconds are dropped;
  \<open>ValueError\<close> for a year outside 1 to 9999.\<close>

definition millis_datetime :: "int \<Rightarrow> exn + datetime" where
  "millis_datetime ms =
     rbind (rbind (int_truediv ms (10 ^ 3)) py_int_of_float) (\<lambda>sec.
     if sec * 10 ^ 6 < min_us \<or> max_us \<le> sec * 10 ^ 6 then Inl ValueError
     else Inr (Aware (sec * 10 ^ 6)))"

text \<open>
  Modelled from the spec: \<open>time_utils.parse_datetime_millis\<close>, which is not among the
  sources.  The specification has it take a millisecond epoch value, a number or a
  numeric string, and convert it as \<open>epoch_ms / 1000\<close> seconds, UTC; its scenario
  (section 8) and \<open>test_location_old\<close> of \<open>tests/test_json.py\<close> give the instant to the
  whole second: \<open>"1512947698030"\<close> is \<open>2017-12-10T23:14:58Z\<close>.  A numeric string is a
  string of decimal digits here.
\<close>

definition spec_parse_datetime_millis :: "json \<Rightarrow> exn + datetime" where
  "spec_parse_datetime_millis j =
     (case j of
        JInt ms \<Rightarrow> millis_datetime ms
      | JFloat f \<Rightarrow> rbind (py_int_of_float f) millis_datetime
      | JStr s \<Rightarrow> (case digits_val s of Some ms \<Rightarrow> millis_datetime ms | None \<Rightarrow> Inl ValueError)
      | _ \<Rightarrow> Inl TypeError)"

text \<open>
  Modelled from the spec: \<open>http_allowlist.convert_to_https_opt\<close>, which is not among the
  sources.  The specification has it rewrite an \<open>http://\<close> URL to \<open>https://\<close> and
  pass an absent value through unchanged.
\<close>

definition spec_convert_to_https_opt :: "json \<Rightarrow> exn + json" where
  "spec_convert_to_https_opt j =
     (case j of
        JStr s \<Rightarrow> Inr (JStr (if take 7 s = ''http://'' then ''https://'' @ drop 7 s else s))
      | _ \<Rightarrow> Inr j)"

text \<open>
  \<open>float(s)\<close> on the plain decimal strings: an optional sign, then digits, or digits
  with a point among them (\<open>10.5\<close>, \<open>10.\<close>, \<open>.5\<close>), correctly rounded, a value too large
  giving an infinity.  The rest of Python's grammar for floats (blanks around the
  number, underscores, exponents, \<open>inf\<close> and \<open>nan\<close>, digits beyond ASCII) is not
  reproduced, and this instance raises \<open>ValueError\<close> there.
\<close>

definition digits_or_empty :: "string \<Rightarrow> int option" where
  "digits_or_empty s = (if s = [] then Some 0 else digits_val s)"

definition unsigned_decimal :: "string \<Rightarrow> rat option" where
  "unsigned_decimal s =
     (let ip = takeWhile (\<lambda>c. c \<noteq> CHR ''.'') s;
          fp = drop 1 (dropWhile (\<lambda>c. c \<noteq> CHR ''.'') s)
      in if ip = [] \<and> fp = [] then None
         else case (digits_or_empty ip, digits_or_empty fp) of
                (Some a, Some b) \<Rightarrow> Some (of_int a + of_int b / 10 ^ length fp)
              | _ \<Rightarrow> None)"

definition decimal_float_of_str :: "string \<Rightarrow> exn + pyfloat" where
  "decimal_float_of_str s =
     (let neg = (take 1 s = ''-'');
          body = (if take 1 s = ''-'' \<or> take 1 s = ''+'' then drop 1 s else s)
      in case unsigned_decimal body of
           Some q \<Rightarrow> Inr (round_binary64 (if neg then - q else q))
         | None \<Rightarrow> Inl ValueError)"

text \<open>The parameters of the extractors, filled with the definitions above: the
  instance at which the examples below are evaluated.\<close>

definition spec_deps :: deps where
  "spec_deps =
     \<lparr>parse_json_utc_date = spec_parse_json_utc_date,
      parse_datetime_millis = spec_parse_datetime_millis,
      convert_to_https_opt = spec_convert_to_https_opt,
      float_of_str = decimal_float_of_str\<rparr>"

section \<open>Example documents and events\<close>

text \<open>A place visit whose location has no \<open>placeId\<close>.\<close>

definition discarded_visit :: json where
  "discarded_visit =
     JObj [(''placeVisit'',
            JObj [(''location'',
                   JObj [(''latitudeE7'', JInt 555555555),
                         (''longitudeE7'', JInt (- 1066666666)),
                         (''address'', JStr ''address'')]),
                  (''duration'',
                   JObj [(''startTimestamp'', JStr ''2017-12-10T23:29:25.026Z''),
                         (''endTimestamp'', JStr ''2017-12-11T01:20:06.106Z'')])])]"

text \<open>The activity segment \<open>_TEST_ACTIVITY_SEGMENT_BASIC\<close> of \<open>tests/test_json.py\<close>, and
  the event the test expects for it (a float of the test is the double nearest to its
  decimal).\<close>

definition basic_segment :: "(string \<times> json) list" where
  "basic_segment =
     [(''startLocation'', JObj []),
      (''endLocation'', JObj []),
      (''duration'',
       JObj [(''startTimestamp'', JStr ''2012-12-06T04:09:31.087Z''),
             (''endTimestamp'', JStr ''2012-12-06T04:19:21.052Z'')]),
      (''distance'', JInt 735),
      (''confidence'', JStr ''LOW''),
      (''activities'',
       JArr [JObj [(''activityType'', JStr ''WALKING''), (''probability'', JFloat (Fin 0))],
             JObj [(''activityType'', JStr ''CYCLING''), (''probability'', JFloat (Fin 0))],
             JObj [(''activityType'', JStr ''IN_VEHICLE''), (''probability'', JFloat (Fin 0))]]),
      (''simplifiedRawPath'',
       JObj [(''points'',
              JArr [JObj [(''latE7'', JInt (- 450339851)),
                          (''lngE7'', JInt 1686552734),
                          (''accuracyMeters'', JInt 5),
                          (''timestamp'', JStr ''2012-12-06T04:12:29.104Z'')]])]),
      (''editConfirmationStatus'', JStr ''NOT_CONFIRMED'')]"

definition basic_segment_event :: ActivitySegment where
  "basic_segment_event =
     \<lparr>ActivitySegment_startTime = utc_datetime 2012 12 6 4 9 31 87000,
      ActivitySegment_endTime = utc_datetime 2012 12 6 4 19 21 52000,
      ActivitySegment_distance = JInt 735,
      ActivitySegment_confidence = JStr ''LOW'',
      ActivitySegment_activities =
        [\<lparr>ActivitySegmentActivity_activityType = JStr ''WALKING'',
          ActivitySegmentActivity_probability = JFloat (Fin 0)\<rparr>,
         \<lparr>ActivitySegmentActivity_activityType = JStr ''CYCLING'',
          ActivitySegmentActivity_probability = JFloat (Fin 0)\<rparr>,
         \<lparr>ActivitySegmentActivity_activityType = JStr ''IN_VEHICLE'',
          ActivitySegmentActivity_probability = JFloat (Fin 0)\<rparr>],
      ActivitySegment_simplifiedRawPath =
        \<lparr>SimplifiedRawPath_points =
           [\<lparr>RawPathPoint_lat = round_binary64 (- 450339851 / 10 ^ 7),
             RawPathPoint_lng = round_binary64 (1686552734 / 10 ^ 7),
             RawPathPoint_accuracyMeters = JInt 5,
             RawPathPoint_timestamp = utc_datetime 2012 12 6 4 12 29 104000\<rparr>]\<rparr>,
      ActivitySegment_waypointPath = None,
      ActivitySegment_activityType = JNull,
      ActivitySegment_startLat = None,
      ActivitySegment_startLng = None,
      ActivitySegment_endLat = None,
      ActivitySegment_endLng = None,
      ActivitySegment_editConfirmationStatus = JStr ''NOT_CONFIRMED''\<rparr>"

text \<open>A record of the legacy shape whose only subtitles are inside the snippet, and its
  event.\<close>

definition legacy_blob :: "(string \<times> json) list" where
  "legacy_blob =
     [(''kind'', JStr ''youtube#activity''),
      (''snippet'',
       JObj [(''title'', JStr ''Watched a video''),
             (''publishedAt'', JStr ''2016-05-03T10:20:30.000Z''),
             (''subtitles'', JArr [JObj [(''name'', JStr ''Some channel'')]])])]"

definition legacy_event :: Activity where
  "legacy_event =
     \<lparr>Activity_header = JStr ''YouTube'', Activity_title = JStr ''Watched a video'',
      Activity_time = utc_datetime 2016 5 3 10 20 30 0,
      Activity_description = JNull, Activity_titleUrl = JNull,
      Activity_subtitles = [], Activity_details = [], Activity_locationInfos = [],
      Activity_products = JArr []\<rparr>"

text \<open>
  A record of the legacy shape with subtitles both beside the snippet and inside it.
  The outer list holds two entries with a \<open>name\<close> (the first with an \<open>http\<close> URL), a
  string and an entry without a \<open>name\<close>; the snippet holds one entry of its own.  The
  event has the two named outer entries, in their order, and nothing of the snippet's.
\<close>

definition outer_subtitles :: "json list" where
  "outer_subtitles =
     [JObj [(''name'', JStr ''Outer channel''),
            (''url'', JStr ''http://www.youtube.com/channel/outer'')],
      JStr ''stray'',
      JObj [(''url'', JStr ''https://www.youtube.com/channel/unnamed'')],
      JObj [(''name'', JStr ''Second outer channel'')]]"

definition nested_subtitles :: "json list" where
  "nested_subtitles =
     [JObj [(''name'', JStr ''Nested channel''),
            (''url'', JStr ''https://www.youtube.com/channel/nested'')]]"

definition nested_snippet :: json where
  "nested_snippet =
     JObj [(''title'', JStr ''Watched another video''),
           (''publishedAt'', JStr ''2016-05-04T11:21:31.500Z''),
           (''subtitles'', JArr nested_subtitles)]"

definition legacy_blob_both :: "(string \<times> json) list" where
  "legacy_blob_both =
     [(''kind'', JStr ''youtube#activity''),
      (''subtitles'', JArr outer_subtitles),
      (''snippet'', nested_snippet)]"

definition legacy_both_event :: Activity where
  "legacy_both_event =
     \<lparr>Activity_header = JStr ''YouTube'', Activity_title = JStr ''Watched another video'',
      Activity_time = utc_datetime 2016 5 4 11 21 31 500000,
      Activity_description = JNull, Activity_titleUrl = JNull,
      Activity_subtitles =
        [Subtitles (JStr ''Outer channel'') (JStr ''http://www.youtube.com/channel/outer''),
         Subtitles (JStr ''Second outer channel'') JNull],
      Activity_details = [], Activity_locationInfos = [],
      Activity_products = JArr []\<rparr>"

text \<open>Two activity segments that differ in the fraction of the start second only; an
  activity at a given time; the place visit and the browser-history entry that
  \<open>tests/test_json.py\<close> expects (a float of the test is the double nearest to its
  decimal).\<close>

definition segment_a :: ActivitySegment where
  "segment_a =
     \<lparr>ActivitySegment_startTime = utc_datetime 2012 12 6 4 9 31 87000,
      ActivitySegment_endTime = utc_datetime 2012 12 6 4 19 21 52000,
      ActivitySegment_distance = JInt 735,
      ActivitySegment_confidence = JStr ''LOW'',
      ActivitySegment_activities = [],
      ActivitySegment_simplifiedRawPath = \<lparr>SimplifiedRawPath_points = []\<rparr>,
      ActivitySegment_waypointPath = None,
      ActivitySegment_activityType = JNull,
      ActivitySegment_startLat = None, ActivitySegment_startLng = None,
      ActivitySegment_endLat = None, ActivitySegment_endLng = None,
      ActivitySegment_editConfirmationStatus = JStr ''NOT_CONFIRMED''\<rparr>"

definition segment_b :: ActivitySegment where
  "segment_b = segment_a\<lparr>ActivitySegment_startTime := utc_datetime 2012 12 6 4 9 31 900000\<rparr>"

definition activity_at :: "datetime \<Rightarrow> Activity" where
  "activity_at t =
     \<lparr>Activity_header = JStr ''Search'', Activity_title = JStr ''Searched for maps'',
      Activity_time = t, Activity_description = JNull, Activity_titleUrl = JNull,
      Activity_subtitles = [], Activity_details = [], Activity_locationInfos = [],
      Activity_products = JArr [JStr ''Search'']\<rparr>"

definition test_place_visit :: PlaceVisit where
  "test_place_visit =
     \<lparr>PlaceVisit_lat = round_binary64 (555555555 / 10 ^ 7),
      PlaceVisit_lng = round_binary64 (- 1066666666 / 10 ^ 7),
      PlaceVisit_centerLat = Some (round_binary64 (555555555 / 10 ^ 7)),
      PlaceVisit_centerLng = Some (round_binary64 (- 1666666666 / 10 ^ 7)),
      PlaceVisit_address = JStr ''address'',
      PlaceVisit_name = JStr ''name'',
      PlaceVisit_locationConfidence = JFloat (round_binary64 (6045 / 100)),
      PlaceVisit_placeId = JStr ''JK4E4P'',
      PlaceVisit_startTime = utc_datetime 2017 12 10 23 29 25 26000,
      PlaceVisit_endTime = utc_datetime 2017 12 11 1 20 6 106000,
      PlaceVisit_sourceInfoDeviceTag = JInt 987654321,
      PlaceVisit_otherCandidateLocations =
        [\<lparr>CandidateLocation_lat = round_binary64 (423984239 / 10 ^ 7),
          CandidateLocation_lng = round_binary64 (- 1565656565 / 10 ^ 7),
          CandidateLocation_address = JStr ''address2'',
          CandidateLocation_name = JStr ''name2'',
          CandidateLocation_placeId = JStr ''XPRK4E4P'',
          CandidateLocation_locationConfidence = JFloat (round_binary64 (24475897 / 10 ^ 6)),
          CandidateLocation_sourceInfoDeviceTag = JNull\<rparr>],
      PlaceVisit_placeConfidence = JStr ''MEDIUM_CONFIDENCE'',
      PlaceVisit_placeVisitType = JStr ''SINGLE_PLACE'',
      PlaceVisit_visitConfidence = JFloat (round_binary64 (6545 / 100)),
      PlaceVisit_editConfirmationStatus = JStr ''NOT_CONFIRMED'',
      PlaceVisit_placeVisitImportance = JStr ''MAIN''\<rparr>"

definition test_chrome_history :: ChromeHistory where
  "test_chrome_history =
     \<lparr>ChromeHistory_title = JStr ''sean'', ChromeHistory_url = JStr ''https://sean.fish'',
      ChromeHistory_dt = utc_datetime 2021 4 2 23 4 50 134513\<rparr>"

text \<open>The browser-history record of \<open>tests/test_json.py\<close> (with an \<open>http\<close> URL), and
  one a microsecond after \<open>2^33\<close> seconds.\<close>

definition test_chrome_item :: "(string \<times> json) list" where
  "test_chrome_item =
     [(''page_transition'', JStr ''LINK''), (''title'', JStr ''sean''),
      (''url'', JStr ''http://sean.fish''), (''client_id'', JStr ''W1vSb98l403jhPeK==''),
      (''time_usec'', JInt 1617404690134513)]"

definition late_chrome_item :: "(string \<times> json) list" where
  "late_chrome_item =
     [(''title'', JStr ''sean''), (''url'', JStr ''http://sean.fish''),
      (''time_usec'', JInt 8589934592000001)]"

section \<open>Properties\<close>

subsection \<open>Sequencing\<close>

lemma rbind_Inl [simp]: "rbind (Inl e) f = Inl e"
  by (simp add: rbind_def)

lemma rbind_Inr [simp]: "rbind (Inr x) f = f x"
  by (simp add: rbind_def)

lemma rbind_eq_Inr: "(rbind m f = Inr y) = (\<exists>x. m = Inr x \<and> f x = Inr y)"
  by (cases m) simp_all

lemma reraise_eq_Inr: "(reraise msg r = Inr y) = (r = Inr y)"
  by (cases "(msg, r)" rule: reraise.cases) simp_all

subsection \<open>Rounding to binary64\<close>

text \<open>\<open>binade\<close> is the exponent of the power of two at or below \<open>|q|\<close>.\<close>

lemma pos_between_bitlen:
  fixes a :: int
  assumes "0 < a"
  shows "(2::rat) powi (bitlen a - 1) \<le> of_int a" "(of_int a :: rat) < 2 powi bitlen a"
proof -
  from assms have b1: "1 \<le> bitlen a"
    by (simp add: bitlen_alt_def)
  have lo: "2 ^ nat (bitlen a - 1) \<le> a" and hi: "a < 2 ^ nat (bitlen a)"
    using bitlen_bounds[OF assms] by auto
  have "(2::rat) powi (bitlen a - 1) = 2 ^ nat (bitlen a - 1)"
    using b1 by (simp add: power_int_def)
  also have "\<dots> = of_int (2 ^ nat (bitlen a - 1))" by simp
  also have "\<dots> \<le> of_int a" using lo by (simp only: of_int_le_iff)
  finally show "(2::rat) powi (bitlen a - 1) \<le> of_int a" .
  have "(of_int a :: rat) < of_int (2 ^ nat (bitlen a))" using hi by (simp only: of_int_less_iff)
  also have "\<dots> = 2 powi bitlen a" using b1 by (simp add: power_int_def)
  finally show "(of_int a :: rat) < 2 powi bitlen a" .
qed

lemma binade_bounds:
  assumes "q \<noteq> 0"
  shows "2 powi binade q \<le> \<bar>q\<bar>" "\<bar>q\<bar> < 2 powi (binade q + 1)"
proof -
  obtain a b where ab: "quotient_of q = (a, b)" by (cases "quotient_of q")
  then have bpos: "0 < b" and q: "q = of_int a / of_int b"
    using quotient_of_denom_pos quotient_of_div by auto
  from assms q have a0: "a \<noteq> 0" by auto
  then have apos: "0 < \<bar>a\<bar>" by simp
  define la where "la = bitlen \<bar>a\<bar>"
  define lb where "lb = bitlen b"
  have absq: "\<bar>q\<bar> = of_int \<bar>a\<bar> / of_int b"
    using bpos by (simp add: q)
  have A: "(2::rat) powi (la - 1) \<le> of_int \<bar>a\<bar>" "(of_int \<bar>a\<bar> :: rat) < 2 powi la"
    using pos_between_bitlen[OF apos] by (simp_all add: la_def)
  have B: "(2::rat) powi (lb - 1) \<le> of_int b" "(of_int b :: rat) < 2 powi lb"
    using pos_between_bitlen[OF bpos] by (simp_all add: lb_def)
  have bq: "(0::rat) < of_int b" using bpos by simp
  have up: "\<bar>q\<bar> < 2 powi (la - lb + 1)"
  proof -
    have "of_int \<bar>a\<bar> < (2::rat) powi la" by (rule A)
    also have "\<dots> = 2 powi (la - lb + 1) * 2 powi (lb - 1)"
      by (simp add: power_int_add[symmetric])
    also have "\<dots> \<le> 2 powi (la - lb + 1) * of_int b"
      using B(1) by (intro mult_left_mono) auto
    finally show ?thesis unfolding absq using bq by (simp add: pos_divide_less_eq)
  qed
  have lo: "2 powi (la - lb - 1) < \<bar>q\<bar>"
  proof -
    have "2 powi (la - lb - 1) * of_int b < (2::rat) powi (la - lb - 1) * 2 powi lb"
      using B(2) by (intro mult_strict_left_mono) auto
    also have "\<dots> = 2 powi (la - 1)"
      by (simp add: power_int_add[symmetric])
    also have "\<dots> \<le> of_int \<bar>a\<bar>" by (rule A)
    finally show ?thesis unfolding absq using bq by (simp add: pos_less_divide_eq)
  qed
  have bd: "binade q = (if 2 powi (la - lb) \<le> \<bar>q\<bar> then la - lb else la - lb - 1)"
    by (simp add: binade_def ab la_def lb_def Let_def)
  show "2 powi binade q \<le> \<bar>q\<bar>" using lo by (simp add: bd)
  show "\<bar>q\<bar> < 2 powi (binade q + 1)" using up by (simp add: bd)
qed

lemma binade_unique:
  assumes "2 powi e \<le> \<bar>q\<bar>" "\<bar>q\<bar> < 2 powi (e + 1)"
  shows "binade q = e"
proof -
  have q0: "q \<noteq> 0"
  proof
    assume "q = 0"
    with assms(1) have "(2::rat) powi e \<le> 0" by simp
    moreover have "(0::rat) < 2 powi e" by simp
    ultimately show False by simp
  qed
  note b = binade_bounds[OF q0]
  have "(2::rat) powi e < 2 powi (binade q + 1)" using assms(1) b(2) by simp
  then have 1: "e < binade q + 1"
    using power_int_increasing[of "binade q + 1" e "2::rat"] by (cases "e < binade q + 1") auto
  have "(2::rat) powi binade q < 2 powi (e + 1)" using assms(2) b(1) by simp
  then have 2: "binade q < e + 1"
    using power_int_increasing[of "e + 1" "binade q" "2::rat"] by (cases "binade q < e + 1") auto
  from 1 2 show ?thesis by simp
qed

text \<open>Rounding half to even moves a number by at most one half, and a number within
  less than one half of an integer goes to that integer.\<close>

lemma round_half_even_err: "\<bar>of_int (round_half_even x) - x\<bar> \<le> 1 / 2"
proof -
  define f where "f = \<lfloor>x\<rfloor>"
  define r where "r = x - of_int f"
  have r: "0 \<le> r" "r < 1" unfolding r_def f_def by linarith+
  have x: "x = of_int f + r" by (simp add: r_def)
  have rhe: "round_half_even x =
      (if r < 1 / 2 then f else if 1 / 2 < r then f + 1 else if even f then f else f + 1)"
    by (simp add: round_half_even_def Let_def f_def r_def)
  have "\<bar>of_int (round_half_even x) - (of_int f + r)\<bar> \<le> 1 / 2"
    using r by (simp add: rhe abs_if)
  then show ?thesis using x by simp
qed

lemma round_half_even_near:
  assumes "\<bar>x - of_int k\<bar> < 1 / 2"
  shows "round_half_even x = k"
proof -
  have e: "\<bar>of_int (round_half_even x) - x\<bar> \<le> 1 / 2" by (rule round_half_even_err)
  have "\<bar>(of_int (round_half_even x) :: rat) - of_int k\<bar> < 1"
    using assms e by linarith
  then have "\<bar>(of_int (round_half_even x - k) :: rat)\<bar> < 1" by simp
  then have "\<bar>round_half_even x - k\<bar> < 1"
    by (metis of_int_abs of_int_less_1_iff)
  then show ?thesis by simp
qed

lemma round_half_even_of_int [simp]: "round_half_even (of_int n) = n"
  by (rule round_half_even_near) simp

text \<open>The error of one rounding below \<open>2^(e+1)\<close> is at most half a unit in the last
  place, \<open>2^(e-53)\<close>; an integer below \<open>2^53\<close> is a double.\<close>

lemma binade_le:
  assumes "q \<noteq> 0" "\<bar>q\<bar> < 2 powi (e + 1)"
  shows "binade q \<le> e"
proof -
  have "(2::rat) powi binade q < 2 powi (e + 1)"
    using binade_bounds(1)[OF assms(1)] assms(2) by simp
  then have "binade q < e + 1"
    using power_int_increasing[of "e + 1" "binade q" "2::rat"] by (cases "binade q < e + 1") auto
  then show ?thesis by simp
qed

lemma nearest_binary64_err:
  assumes "\<bar>q\<bar> < 2 powi (e + 1)" "- 1022 \<le> e"
  shows "\<bar>nearest_binary64 q - q\<bar> \<le> 2 powi (e - 53)"
proof (cases "q = 0")
  case True
  then show ?thesis by (simp add: nearest_binary64_def)
next
  case False
  define u :: rat where "u = 2 powi ulp_exp q"
  have upos: "0 < u" by (simp add: u_def)
  have "ulp_exp q \<le> e - 52"
    using binade_le[OF False assms(1)] assms(2) by (simp add: ulp_exp_def)
  then have ule: "u \<le> 2 powi (e - 52)"
    unfolding u_def by (intro power_int_increasing) auto
  have "\<bar>of_int (round_half_even (q / u)) - q / u\<bar> \<le> 1 / 2"
    by (rule round_half_even_err)
  then have "\<bar>of_int (round_half_even (q / u)) - q / u\<bar> * u \<le> 1 / 2 * u"
    using upos by (intro mult_right_mono) auto
  moreover have "\<bar>of_int (round_half_even (q / u)) - q / u\<bar> * u
      = \<bar>of_int (round_half_even (q / u)) * u - q\<bar>"
  proof -
    have "\<bar>of_int (round_half_even (q / u)) - q / u\<bar> * u
        = \<bar>(of_int (round_half_even (q / u)) - q / u) * u\<bar>"
      using upos by (simp add: abs_mult)
    also have "(of_int (round_half_even (q / u)) - q / u) * u
        = of_int (round_half_even (q / u)) * u - q"
      using upos by (simp add: algebra_simps)
    finally show ?thesis .
  qed
  ultimately have "\<bar>of_int (round_half_even (q / u)) * u - q\<bar> \<le> 1 / 2 * u"
    by simp
  then have "\<bar>nearest_binary64 q - q\<bar> \<le> u / 2"
    using False by (simp add: nearest_binary64_def u_def)
  also have "\<dots> \<le> 2 powi (e - 52) / 2" using ule by simp
  also have "\<dots> = 2 powi (e - 53)"
    by (simp add: power_int_diff)
  finally show ?thesis .
qed

lemma nearest_binary64_of_int:
  assumes "\<bar>n\<bar> < 2 ^ 53"
  shows "nearest_binary64 (of_int n) = of_int n"
proof (cases "n = 0")
  case True
  then show ?thesis by (simp add: nearest_binary64_def)
next
  case False
  let ?q = "of_int n :: rat"
  have q0: "?q \<noteq> 0" using False by simp
  have "\<bar>?q\<bar> < 2 powi (52 + 1)"
  proof -
    have "\<bar>?q\<bar> = of_int \<bar>n\<bar>" by simp
    also have "\<dots> < of_int (2 ^ 53)" using assms by (simp only: of_int_less_iff)
    finally show ?thesis by simp
  qed
  then have "binade ?q \<le> 52" by (rule binade_le[OF q0])
  moreover have "0 \<le> binade ?q"
  proof -
    have "1 \<le> \<bar>n\<bar>" using False by simp
    then have "(of_int 1 :: rat) \<le> of_int \<bar>n\<bar>" by (simp only: of_int_le_iff)
    then have "(1::rat) \<le> \<bar>?q\<bar>" by simp
    then have "\<bar>?q\<bar> < 2 powi (binade ?q + 1)" "1 \<le> \<bar>?q\<bar>"
      using binade_bounds(2)[OF q0] by auto
    then have "(2::rat) powi 0 < 2 powi (binade ?q + 1)" by simp
    then have "0 < binade ?q + 1"
      using power_int_increasing[of "binade ?q + 1" 0 "2::rat"]
      by (cases "0 < binade ?q + 1") auto
    then show ?thesis by simp
  qed
  ultimately have "ulp_exp ?q = - int (nat (52 - binade ?q))"
    by (simp add: ulp_exp_def)
  then obtain j :: nat where j: "ulp_exp ?q = - int j" ..
  have u: "(2::rat) powi ulp_exp ?q = 1 / 2 ^ j"
    by (simp add: j power_int_minus field_simps)
  have "?q / (1 / 2 ^ j) = of_int (n * 2 ^ j)" by simp
  then have "round_half_even (?q / (1 / 2 ^ j)) = n * 2 ^ j"
    by (simp only: round_half_even_of_int)
  then have "nearest_binary64 ?q = of_int (n * 2 ^ j) * (1 / 2 ^ j)"
    using q0 by (simp only: nearest_binary64_def u if_False)
  also have "\<dots> = ?q" by simp
  finally show ?thesis .
qed

lemma round_binary64_finite:
  assumes "\<bar>nearest_binary64 q\<bar> < 2 ^ 1024"
  shows "round_binary64 q = Fin (nearest_binary64 q)"
  using assms by (simp add: round_binary64_def Let_def)

lemma nearest_binary64_eval:
  assumes "2 powi e \<le> \<bar>q\<bar>" "\<bar>q\<bar> < 2 powi (e + 1)" "- 1022 \<le> e"
    and "\<bar>q / 2 powi (e - 52) - of_int m\<bar> < 1 / 2"
  shows "nearest_binary64 q = of_int m * 2 powi (e - 52)"
proof -
  have b: "binade q = e" using assms(1,2) by (rule binade_unique)
  have "(0::rat) < 2 powi e" by simp
  with assms(1) have "0 < \<bar>q\<bar>" by linarith
  then have q0: "q \<noteq> 0" by simp
  have u: "ulp_exp q = e - 52" using assms(3) by (simp add: ulp_exp_def b)
  have "round_half_even (q / 2 powi (e - 52)) = m" using assms(4) by (rule round_half_even_near)
  then show ?thesis using q0 by (simp add: nearest_binary64_def u)
qed

subsection \<open>Microseconds through a double\<close>

text \<open>
  For an instant \<open>n\<close> microseconds after the epoch with \<open>exact_us n\<close>, the double
  nearest to \<open>n / 10^6\<close> is within \<open>2^(-21)\<close> of it, which is less than half a
  microsecond: it lies in the same second, and \<open>utcfromtimestamp\<close> recovers \<open>n\<close>.
\<close>

lemma exact_us_div:
  assumes "exact_us n"
  shows "0 \<le> n div 1000000" "n div 1000000 < 8589934592"
  using assms unfolding exact_us_def by simp_all arith+

lemma truediv_err:
  assumes "exact_us n"
  shows "\<bar>nearest_binary64 (of_int n / 1000000) - of_int n / 1000000\<bar> \<le> 1 / 2097152"
proof -
  have "(of_int n :: rat) < of_int 8589934592000000"
    using assms unfolding exact_us_def by (simp only: of_int_less_iff) simp
  then have "(of_int n :: rat) / 1000000 < 8589934592" by simp
  moreover have "(0::rat) \<le> of_int n / 1000000" using assms by (simp add: exact_us_def)
  ultimately have "\<bar>(of_int n :: rat) / 1000000\<bar> < 2 powi (32 + 1)" by simp
  then have "\<bar>nearest_binary64 (of_int n / 1000000) - of_int n / 1000000\<bar> \<le> 2 powi (32 - 53)"
    by (rule nearest_binary64_err) simp
  then show ?thesis by (simp add: power_int_minus)
qed

lemma truediv_between:
  assumes "exact_us n"
  shows "of_int (n div 1000000) \<le> nearest_binary64 (of_int n / 1000000)"
    and "nearest_binary64 (of_int n / 1000000) < of_int (n div 1000000) + 1"
proof -
  define s where "s = n div 1000000"
  define k where "k = n mod 1000000"
  define d where "d = nearest_binary64 (of_int n / 1000000)"
  have n: "n = s * 1000000 + k" by (simp add: s_def k_def)
  have k: "0 \<le> k" "k \<le> 999999" unfolding k_def by simp_all
  have s: "0 \<le> s" "s < 8589934592" using exact_us_div[OF assms] by (simp_all add: s_def)
  have x: "(of_int n :: rat) / 1000000 = of_int s + of_int k / 1000000"
    by (simp add: n field_simps)
  have err: "\<bar>d - (of_int s + of_int k / 1000000)\<bar> \<le> 1 / 2097152"
    using truediv_err[OF assms] unfolding d_def x .
  have "of_int s \<le> d \<and> d < of_int s + 1"
  proof (cases "k = 0")
    case True
    have "\<bar>s\<bar> < 2 ^ 53" using s by simp
    then have "nearest_binary64 (of_int s) = of_int s" by (rule nearest_binary64_of_int)
    then have "d = of_int s" unfolding d_def x by (simp add: True)
    then show ?thesis by simp
  next
    case False
    then have "1 \<le> k" using k by simp
    then have "(of_int 1 :: rat) \<le> of_int k" by (simp only: of_int_le_iff)
    moreover have "(of_int k :: rat) \<le> of_int 999999" using k by (simp only: of_int_le_iff)
    ultimately have "(1::rat) / 1000000 \<le> of_int k / 1000000"
      "(of_int k :: rat) / 1000000 \<le> 999999 / 1000000"
      by simp_all
    with err show ?thesis by linarith
  qed
  then show "of_int (n div 1000000) \<le> nearest_binary64 (of_int n / 1000000)"
    and "nearest_binary64 (of_int n / 1000000) < of_int (n div 1000000) + 1"
    by (simp_all add: s_def d_def)
qed

lemma truediv_finite:
  assumes "exact_us n"
  shows "int_truediv n 1000000 = Inr (Fin (nearest_binary64 (of_int n / 1000000)))"
proof -
  let ?d = "nearest_binary64 (of_int n / 1000000)"
  note s = exact_us_div[OF assms]
  have "(of_int 0 :: rat) \<le> of_int (n div 1000000)"
    using s(1) by (simp only: of_int_le_iff)
  moreover have "n div 1000000 + 1 \<le> 8589934592" using s(2) by simp
  then have "(of_int (n div 1000000 + 1) :: rat) \<le> of_int 8589934592"
    by (simp only: of_int_le_iff)
  ultimately have "0 \<le> ?d" "?d < 2 ^ 33" using truediv_between[OF assms] by simp_all
  moreover have "(2::rat) ^ 33 \<le> 2 ^ 1024" by (rule power_increasing) simp_all
  ultimately have "\<bar>?d\<bar> < 2 ^ 1024" by linarith
  then have "round_binary64 (of_int n / 1000000) = Fin ?d" by (rule round_binary64_finite)
  then show ?thesis by (simp add: int_truediv_def)
qed

lemma int_timestamp_exact:
  assumes "exact_us n"
  shows "int_timestamp (Aware n) = Inr (n div 1000000)"
proof -
  let ?d = "nearest_binary64 (of_int n / 1000000)"
  note b = truediv_between[OF assms]
  have "(0::rat) \<le> of_int (n div 1000000)" using exact_us_div(1)[OF assms] by simp
  with b have d0: "0 \<le> ?d" by simp
  have "\<lfloor>?d\<rfloor> = n div 1000000" using b by (intro floor_unique) simp_all
  then have "trunc_toward_zero ?d = n div 1000000" using d0 by (simp add: trunc_toward_zero_def)
  moreover have "int_truediv n (10 ^ 6) = Inr (Fin ?d)" using truediv_finite[OF assms] by simp
  ultimately show ?thesis
    by (simp add: int_timestamp_def del: power_numeral)
qed

lemma gmtime_bounds:
  "gmtime_min = - 67768040609740800" "gmtime_max = 67768036191676800"
  by (simp_all add: gmtime_min_def gmtime_max_def days_from_civil_def Let_def)

lemma utcfromtimestamp_eval:
  assumes "0 \<le> d" "\<lfloor>d\<rfloor> = s"
    and "round_half_even (nearest_binary64 ((d - of_int s) * 1000000)) = k"
    and "0 \<le> k" "k < 1000000" "s < 253402300800"
  shows "utcfromtimestamp (Fin d) = Inr (Naive (s * 1000000 + k))"
proof -
  define fp where "fp = nearest_binary64 ((d - of_int s) * 1000000)"
  have tr: "trunc_toward_zero d = s" using assms(1,2) by (simp add: trunc_toward_zero_def)
  have s0: "0 \<le> s" using assms(1,2) by auto
  have "\<bar>of_int (round_half_even fp) - fp\<bar> \<le> 1 / 2" by (rule round_half_even_err)
  then have e: "\<bar>of_int k - fp\<bar> \<le> 1 / 2" using assms(3) by (simp add: fp_def)
  have "(of_int 0 :: rat) \<le> of_int k" "(of_int k :: rat) < of_int 1000000"
    using assms(4,5) by (simp_all only: of_int_le_iff of_int_less_iff)
  then have "(0 :: rat) \<le> of_int k" "(of_int k :: rat) < 1000000" by simp_all
  with e have "\<bar>fp\<bar> < 1000001" by linarith
  moreover have "(1000001::rat) \<le> 2 ^ 1024"
  proof -
    have "(1000001::rat) \<le> 2 ^ 20" by simp
    also have "\<dots> \<le> 2 ^ 1024" by (rule power_increasing) simp_all
    finally show ?thesis .
  qed
  ultimately have "\<bar>fp\<bar> < 2 ^ 1024" by linarith
  then have fm: "float_mul (Fin (d - of_int s)) 1000000 = Fin fp"
    by (simp add: round_binary64_finite fp_def)
  have rhe: "round_half_even fp = k" using assms(3) by (simp add: fp_def)
  have rng: "\<not> (s < - (2 ^ 63) \<or> 2 ^ 63 \<le> s)" using s0 assms(6) by simp
  have rng1: "\<not> (s < gmtime_min \<or> gmtime_max \<le> s)"
    using s0 assms(6) unfolding gmtime_bounds by simp
  have rng2: "\<not> (s * 1000000 + k < min_us \<or> max_us \<le> s * 1000000 + k)"
    using s0 assms(4-6) unfolding min_us_def max_us_def by simp
  show ?thesis
    using assms(4,5) rng rng1 rng2 tr fm rhe by (simp add: utcfromtimestamp_def Let_def)
qed

lemma utcfromtimestamp_exact:
  assumes "exact_us n"
  shows "utcfromtimestamp (Fin (nearest_binary64 (of_int n / 1000000))) = Inr (Naive n)"
proof -
  define s where "s = n div 1000000"
  define k where "k = n mod 1000000"
  define d where "d = nearest_binary64 (of_int n / 1000000)"
  define w where "w = (d - of_int s) * 1000000"
  have n: "n = s * 1000000 + k" by (simp add: s_def k_def)
  have k: "0 \<le> k" "k \<le> 999999" unfolding k_def by simp_all
  have s: "0 \<le> s" "s < 8589934592" using exact_us_div[OF assms] by (simp_all add: s_def)
  have x: "(of_int n :: rat) / 1000000 = of_int s + of_int k / 1000000"
    by (simp add: n field_simps)
  have err: "\<bar>d - (of_int s + of_int k / 1000000)\<bar> \<le> 1 / 2097152"
    using truediv_err[OF assms] unfolding d_def x .
  have b: "of_int s \<le> d" "d < of_int s + 1"
    using truediv_between[OF assms] by (simp_all add: s_def d_def)
  have "(0::rat) \<le> of_int s" using s by simp
  with b have d0: "0 \<le> d" by simp
  have "\<lfloor>d\<rfloor> = s" using b by (intro floor_unique) simp_all
  then have tr: "trunc_toward_zero d = s" using d0 by (simp add: trunc_toward_zero_def)
  have kq: "(0::rat) \<le> of_int k" "(of_int k :: rat) \<le> 999999"
  proof -
    show "(0::rat) \<le> of_int k" using k by simp
    have "(of_int k :: rat) \<le> of_int 999999" using k by (simp only: of_int_le_iff)
    then show "(of_int k :: rat) \<le> 999999" by simp
  qed
  have wk: "\<bar>w - of_int k\<bar> \<le> 1000000 / 2097152"
  proof -
    have "w - of_int k = (d - (of_int s + of_int k / 1000000)) * 1000000"
      by (simp add: w_def algebra_simps)
    then have "\<bar>w - of_int k\<bar> = \<bar>d - (of_int s + of_int k / 1000000)\<bar> * \<bar>1000000\<bar>"
      by (simp only: abs_mult)
    then have "\<bar>w - of_int k\<bar> = \<bar>d - (of_int s + of_int k / 1000000)\<bar> * 1000000"
      by simp
    with err show ?thesis by simp
  qed
  have "\<bar>w\<bar> < 1048576" using wk kq by linarith
  then have "\<bar>w\<bar> < 2 powi (19 + 1)" by simp
  then have "\<bar>nearest_binary64 w - w\<bar> \<le> 2 powi (19 - 53)"
    by (rule nearest_binary64_err) simp
  then have werr: "\<bar>nearest_binary64 w - w\<bar> \<le> 1 / 17179869184"
    by (simp add: power_int_minus)
  have near: "\<bar>nearest_binary64 w - of_int k\<bar> < 1 / 2" using werr wk by linarith
  then have rhe: "round_half_even (nearest_binary64 w) = k" by (rule round_half_even_near)
  have "\<bar>nearest_binary64 w\<bar> < 1000000" using near kq by linarith 
  moreover have "(1000000::rat) \<le> 2 ^ 1024"
  proof -
    have "(1000000::rat) \<le> 2 ^ 20" by simp
    also have "\<dots> \<le> 2 ^ 1024" by (rule power_increasing) simp_all
    finally show ?thesis .
  qed
  ultimately have "\<bar>nearest_binary64 w\<bar> < 2 ^ 1024" by linarith
  then have fm: "float_mul (Fin (d - of_int s)) 1000000 = Fin (nearest_binary64 w)"
    by (simp add: round_binary64_finite w_def)
  have rng: "\<not> (s < - (2 ^ 63) \<or> 2 ^ 63 \<le> s)" using s by simp
  have rng1: "\<not> (s < gmtime_min \<or> gmtime_max \<le> s)" using s unfolding gmtime_bounds by simp
  have rng2: "\<not> (s * 1000000 + k < min_us \<or> max_us \<le> s * 1000000 + k)"
    using assms unfolding n[symmetric] exact_us_def min_us_def max_us_def by simp
  have "utcfromtimestamp (Fin d) = Inr (Naive (s * 1000000 + k))"
    using k rng rng1 rng2 tr fm rhe by (simp add: utcfromtimestamp_def Let_def)
  then show ?thesis by (simp add: d_def n)
qed

lemma int_timestamp_epoch_second:
  assumes "exact_us (epoch_us d)"
  shows "int_timestamp d = Inr (epoch_second d)"
  using int_timestamp_exact[OF assms] by (cases d) (simp add: epoch_second_def)

text \<open>The doubles of three quotients, by their binade and mantissa.\<close>

lemma nearest_after_2_33: "nearest_binary64 (8589934592000001 / 1000000) = 4503599627370497 / 524288"
proof -
  have "nearest_binary64 (8589934592000001 / 1000000) = of_int 4503599627370497 * 2 powi (33 - 52)"
    by (rule nearest_binary64_eval) (simp_all add: power_int_minus)
  then show ?thesis by (simp add: power_int_minus)
qed

lemma nearest_15625_8192: "nearest_binary64 (15625 / 8192) = 15625 / 8192"
proof -
  have "nearest_binary64 (15625 / 8192) = of_int (15625 * 2 ^ 39) * 2 powi (0 - 52)"
    by (rule nearest_binary64_eval) (simp_all add: power_int_minus)
  then show ?thesis by (simp add: power_int_minus)
qed

lemma nearest_minus_half: "nearest_binary64 (- (1 / 2)) = - (1 / 2)"
proof -
  have "nearest_binary64 (- (1 / 2)) = of_int (- (2 ^ 52)) * 2 powi (- 1 - 52)"
    by (rule nearest_binary64_eval) (simp_all add: power_int_minus)
  then show ?thesis by (simp add: power_int_minus)
qed

lemma nearest_year_2600: "nearest_binary64 (19880899200999999 / 1000000) = 19880899201"
proof -
  have "nearest_binary64 (19880899200999999 / 1000000)
      = of_int (19880899201 * 2 ^ 18) * 2 powi (34 - 52)"
    by (rule nearest_binary64_eval) (simp_all add: power_int_minus)
  then show ?thesis by (simp add: power_int_minus)
qed

subsection \<open>Degrees through a double\<close>

text \<open>
  For \<open>|raw| < 2^50\<close> the conversion of \<open>raw\<close> to a float is exact, the quotient by
  \<open>1e7\<close> is the finite double nearest to \<open>raw / 10^7\<close>, and the product of that
  double by \<open>1e7\<close> rounds back to \<open>raw\<close>.
\<close>

lemma e7_roundtrip:
  assumes "\<bar>raw\<bar> < 2 ^ 50"
  shows "float_of_int raw = Inr (Fin (of_int raw))"
    and "round_binary64 (of_int raw / 10000000) = Fin (nearest_binary64 (of_int raw / 10000000))"
    and "spec_e7_encode (Fin (nearest_binary64 (of_int raw / 10000000))) = Inr raw"
proof -
  define x :: rat where "x = of_int raw / 10000000"
  define y where "y = nearest_binary64 x"
  define w where "w = y * 10000000"
  define z where "z = nearest_binary64 w"
  have big: "(2::rat) ^ 53 \<le> 2 ^ 1024" by (rule power_increasing) simp_all
  have "(of_int \<bar>raw\<bar> :: rat) < of_int (2 ^ 50)" using assms by (simp only: of_int_less_iff)
  then have r: "\<bar>of_int raw :: rat\<bar> < 1125899906842624" by simp
  have "\<bar>raw\<bar> < 2 ^ 53" using assms by simp
  then have "nearest_binary64 (of_int raw) = of_int raw" by (rule nearest_binary64_of_int)
  moreover have "\<bar>of_int raw :: rat\<bar> < 2 ^ 53" using r by simp
  then have "\<bar>of_int raw :: rat\<bar> < 2 ^ 1024" using big by linarith
  ultimately show "float_of_int raw = Inr (Fin (of_int raw))"
    by (simp add: float_of_int_def round_binary64_finite)
  have xa: "\<bar>x\<bar> = \<bar>of_int raw\<bar> / 10000000" by (simp add: x_def)
  have xb: "\<bar>x\<bar> < 134217728" unfolding xa using r by simp
  then have "\<bar>x\<bar> < 2 powi (26 + 1)" by simp
  then have "\<bar>y - x\<bar> \<le> 2 powi (26 - 53)" unfolding y_def by (rule nearest_binary64_err) simp
  then have yerr: "\<bar>y - x\<bar> \<le> 1 / 134217728" by (simp add: power_int_minus)
  have "\<bar>y\<bar> < 9007199254740992" using yerr xb by linarith
  then have "\<bar>y\<bar> < 2 ^ 53" by simp
  then have "\<bar>y\<bar> < 2 ^ 1024" using big by linarith
  then have rx: "round_binary64 x = Fin y" unfolding y_def by (rule round_binary64_finite)
  then show "round_binary64 (of_int raw / 10000000) = Fin (nearest_binary64 (of_int raw / 10000000))"
    by (simp add: x_def y_def)
  have "w - of_int raw = (y - x) * 10000000" by (simp add: w_def x_def algebra_simps)
  then have "\<bar>w - of_int raw\<bar> = \<bar>y - x\<bar> * \<bar>10000000\<bar>" by (simp only: abs_mult)
  then have werr: "\<bar>w - of_int raw\<bar> \<le> 10000000 / 134217728" using yerr by simp
  have "\<bar>w\<bar> < 2251799813685248" using werr r by linarith
  then have "\<bar>w\<bar> < 2 powi (50 + 1)" by simp
  then have "\<bar>z - w\<bar> \<le> 2 powi (50 - 53)" unfolding z_def by (rule nearest_binary64_err) simp
  then have zerr: "\<bar>z - w\<bar> \<le> 1 / 8" by (simp add: power_int_minus)
  have "\<bar>z - of_int raw\<bar> < 1 / 2" using zerr werr by linarith
  then have rz: "round_half_even z = raw" by (rule round_half_even_near)
  have "\<bar>z\<bar> < 9007199254740992" using zerr werr r by linarith
  then have "\<bar>z\<bar> < 2 ^ 53" by simp
  then have "\<bar>z\<bar> < 2 ^ 1024" using big by linarith
  then have "round_binary64 w = Fin z" unfolding z_def by (rule round_binary64_finite)
  then show "spec_e7_encode (Fin (nearest_binary64 (of_int raw / 10000000))) = Inr raw"
    using rz by (simp add: spec_e7_encode_def w_def y_def x_def)
qed

lemma py_div_1e7_int:
  assumes "\<bar>raw\<bar> < 2 ^ 50"
  shows "py_div_1e7 (JInt raw) = Inr (round_binary64 (of_int raw / 10000000))"
  using e7_roundtrip(1)[OF assms] by simp

subsection \<open>Evaluating the examples\<close>

lemma digits_val_simps [simp]:
  "digits_val [] = None"
  "digits_val (c # cs) = (if list_all (\<lambda>c. digit_val c \<noteq> None) (c # cs)
      then Some (foldl (\<lambda>a c. 10 * a + the (digit_val c)) 0 (c # cs)) else None)"
  by (simp_all add: digits_val_def)

lemma digit_simps [simp]:
  "digit_val CHR ''0'' = Some 0" "digit_val CHR ''1'' = Some 1" "digit_val CHR ''2'' = Some 2"
  "digit_val CHR ''3'' = Some 3" "digit_val CHR ''4'' = Some 4" "digit_val CHR ''5'' = Some 5"
  "digit_val CHR ''6'' = Some 6" "digit_val CHR ''7'' = Some 7" "digit_val CHR ''8'' = Some 8"
  "digit_val CHR ''9'' = Some 9"
  by (simp_all add: digit_val_def)

lemma utc_simps:
  "utc_datetime 2012 12 6 4 9 31 87000 = Aware 1354766971087000"
  "utc_datetime 2012 12 6 4 9 31 900000 = Aware 1354766971900000"
  "utc_datetime 2012 12 6 4 19 21 52000 = Aware 1354767561052000"
  "utc_datetime 2017 12 10 23 29 25 26000 = Aware 1512948565026000"
  "utc_datetime 2021 4 2 23 4 50 134513 = Aware 1617404690134513"
  "utc_datetime 1969 12 31 23 59 59 500000 = Aware (- 500000)"
  "utc_datetime 2600 1 1 0 0 0 999999 = Aware 19880899200999999"
  by (simp_all add: utc_datetime_def days_from_civil_def Let_def)

text \<open>The scenario of the specification for the millisecond epoch: \<open>"1512947698030"\<close>
  is \<open>2017-12-10T23:14:58Z\<close>, the thirty milliseconds dropped.\<close>

lemma nearest_millis_scenario:
  "nearest_binary64 (151294769803 / 100) = 6345762581638021 / 4194304"
proof -
  have "nearest_binary64 (151294769803 / 100) = of_int 6345762581638021 * 2 powi (30 - 52)"
    by (rule nearest_binary64_eval) (simp_all add: power_int_minus)
  then show ?thesis by (simp add: power_int_minus)
qed

lemma millis_scenario:
  "spec_parse_datetime_millis (JStr ''1512947698030'') = Inr (utc_datetime 2017 12 10 23 14 58 0)"
proof -
  have r: "round_binary64 (151294769803 / 100) = Fin (6345762581638021 / 4194304)"
    by (simp add: round_binary64_def nearest_millis_scenario)
  have f: "\<lfloor>6345762581638021 / 4194304 :: rat\<rfloor> = 1512947698"
    by (rule floor_unique) simp_all
  have t: "trunc_toward_zero (6345762581638021 / 4194304) = 1512947698"
    by (simp add: trunc_toward_zero_def f)
  have u: "utc_datetime 2017 12 10 23 14 58 0 = Aware 1512947698000000"
    by (simp add: utc_datetime_def days_from_civil_def Let_def)
  show ?thesis
    by (simp add: spec_parse_datetime_millis_def millis_datetime_def int_truediv_def r t u
        min_us_def max_us_def)
qed

text \<open>A string with a month 13 and a day 45 is no date; \<open>float("10.5")\<close> is \<open>10.5\<close>;
  and \<open>utcfromtimestamp(6.8e16)\<close>, beyond the years of \<open>gmtime\<close>, raises \<open>OSError\<close>.\<close>

lemma invalid_date_raises:
  "spec_parse_json_utc_date (JStr ''2016-13-45T10:20:30Z'') = Inl ValueError"
  by (simp add: spec_parse_json_utc_date_def valid_civil_def days_in_month_def
      is_leap_year_def fraction_us_def)

lemma decimal_float_example: "decimal_float_of_str ''10.5'' = Inr (Fin (21 / 2))"
proof -
  have "nearest_binary64 (21 / 2) = of_int (21 * 2 ^ 48) * 2 powi (3 - 52)"
    by (rule nearest_binary64_eval) (simp_all add: power_int_minus)
  then have n: "nearest_binary64 (21 / 2) = 21 / 2" by (simp add: power_int_minus)
  have r: "round_binary64 (21 / 2) = Fin (21 / 2)" by (simp add: round_binary64_def n)
  have "unsigned_decimal ''10.5'' = Some (21 / 2)"
    by (simp add: unsigned_decimal_def digits_or_empty_def Let_def)
  then show ?thesis by (simp add: decimal_float_of_str_def r)
qed

lemma utcfromtimestamp_gmtime_fails: "utcfromtimestamp (Fin 68000000000000000) = Inl OSError"
proof -
  have t: "trunc_toward_zero 68000000000000000 = 68000000000000000"
    by (simp add: trunc_toward_zero_def)
  have z: "round_binary64 0 = Fin 0" by (simp add: round_binary64_def nearest_binary64_def)
  have h: "round_half_even 0 = 0" by (simp add: round_half_even_def)
  show ?thesis by (simp add: utcfromtimestamp_def Let_def t z h gmtime_bounds)
qed

subsection \<open>A top level of the wrong shape\<close>

text \<open>
  Claim C1: for every supported document kind, a document whose top-level value does
  not match the expected envelope (for instance a JSON scalar) gives exactly one
  document-shape error and no event, and no exception leaves the extractor.

  The code does not do this.  On the JSON number \<open>5\<close> the three list extractors yield
  their document-shape error and then iterate the number, which raises \<open>TypeError\<close>
  out of the generator; the semantic extractor yields its error and raises on the
  membership test that follows; the coarse location and browser-history extractors
  raise on their first membership test, before any outcome.
\<close>

theorem scalar_top_level_raises:
  "parse_json_activity D (JInt 5) =
     ([Inl (RuntimeError ActivityTopLevelNotList)], Some TypeError)
   \<and> parse_likes D (JInt 5) = ([Inl (RuntimeError LikesTopLevelNotList)], Some TypeError)
   \<and> parse_app_installs D (JInt 5) =
     ([Inl (RuntimeError AppInstallsTopLevelNotList)], Some TypeError)
   \<and> parse_location_history D (JInt 5) = ([], Some TypeError)
   \<and> parse_semantic_location_history D (JInt 5) =
     ([Inl (RuntimeError SemanticTopLevelNotDict)], Some TypeError)
   \<and> parse_chrome_history (JInt 5) = ([], Some TypeError)"
  by (simp add: parse_json_activity_def parse_likes_def parse_app_installs_def
      parse_location_history_def parse_semantic_location_history_def
      parse_chrome_history_def)

text \<open>A top-level string is iterated by character: one more error per character.\<close>

lemma string_top_level_activity:
  "parse_json_activity D (JStr ''ab'') =
     ([Inl (RuntimeError ActivityTopLevelNotList), Inl AttributeError, Inl AttributeError],
      None)"
  by (simp add: parse_json_activity_def activity_of_blob_def blob_subtitles_def)

subsection \<open>One outcome per timeline object\<close>

text \<open>
  Claim C2: in a semantic location-history document with a well-formed envelope, every
  timeline object gives exactly one outcome, a timeline object with neither a
  \<open>placeVisit\<close> nor an \<open>activitySegment\<close> key included.

  The code does not do this.  The document \<open>{"timelineObjects": [{}]}\<close> has one
  timeline object and two outcomes: the error of the \<open>else\<close> branch, and the
  \<open>UnboundLocalError\<close> of the test of \<open>result\<close> the branch falls through to.
\<close>

theorem unknown_timeline_object_two_outcomes:
  "parse_semantic_location_history D (JObj [(''timelineObjects'', JArr [JObj []])]) =
     ([Inl (RuntimeError (UnknownTimelineObject [])), Inl UnboundLocalError], None)"
  by (simp add: parse_semantic_location_history_def timeline_step_def)

lemma basic_segment_parses:
  "parse_activity_segment spec_deps (JObj basic_segment) = Inr basic_segment_event"
proof -
  have "\<bar>- 450339851 :: int\<bar> < 2 ^ 50" by simp
  from py_div_1e7_int[OF this]
  have lat: "py_div_1e7 (JInt (- 450339851)) = Inr (round_binary64 (- 450339851 / 10000000))"
    by simp
  have "\<bar>1686552734 :: int\<bar> < 2 ^ 50" by simp
  from py_div_1e7_int[OF this]
  have lng: "py_div_1e7 (JInt 1686552734) = Inr (round_binary64 (1686552734 / 10000000))"
    by simp
  show ?thesis
    by (simp add: basic_segment_def basic_segment_event_def parse_activity_segment_def
        sem_activity_segment_required_keys_def activity_segment_body_def segment_endpoint_def
        spec_deps_def spec_parse_json_utc_date_def valid_civil_def days_in_month_def
      is_leap_year_def fraction_us_def
        ActivitySegmentActivity_from_dict_def SimplifiedRawPath_from_list_def
        RawPathPoint_from_dict_def lat lng del: py_div_1e7.simps)
qed

text \<open>After an event the stale \<open>result\<close> is that event: the object with neither key
  yields its error and then the previous object's event a second time.\<close>

lemma unknown_timeline_object_repeats_event:
  "parse_semantic_location_history spec_deps
     (JObj [(''timelineObjects'', JArr [JObj [(''activitySegment'', JObj basic_segment)], JObj []])]) =
     ([Inr (AS basic_segment_event), Inl (RuntimeError (UnknownTimelineObject [])),
       Inr (AS basic_segment_event)], None)"
  by (simp add: parse_semantic_location_history_def timeline_step_def basic_segment_parses)

subsection \<open>The silent discard of a place visit\<close>

lemma check_required_keys_dict:
  "check_required_keys (JObj kvs) ks = Inr (find (\<lambda>k. map_of kvs k = None) ks)"
  by (induction ks) simp_all

lemma timeline_loop_append:
  "timeline_loop D r (xs @ ys) =
     (fst (timeline_loop D r xs) @ fst (timeline_loop D (snd (timeline_loop D r xs)) ys),
      snd (timeline_loop D (snd (timeline_loop D r xs)) ys))"
  by (induction xs arbitrary: r) (simp_all add: split_beta)

text \<open>
  Claim C3: a timeline object whose \<open>placeVisit\<close> has the keys \<open>location\<close> and
  \<open>duration\<close>, and whose location object lacks one of \<open>placeId\<close>, \<open>latitudeE7\<close>,
  \<open>longitudeE7\<close>, gives no event and no error, and the other timeline objects of the
  document are processed as usual.

  The pass of the loop over such an object yields nothing, whatever \<open>result\<close> held,
  and leaves \<open>result = None\<close>.  The loop goes on: the outcomes of a document are those
  of the objects before it followed by those of the objects after it, the latter
  processed from \<open>result = None\<close>, and no exception leaves the extractor.
\<close>

theorem place_visit_silent_discard:
  assumes obj: "map_of obj ''placeVisit'' = Some (JObj pv)"
    and loc: "map_of pv ''location'' = Some (JObj loc)"
    and dur: "map_of pv ''duration'' = Some dur"
    and missing: "map_of loc ''placeId'' = None \<or> map_of loc ''latitudeE7'' = None
                  \<or> map_of loc ''longitudeE7'' = None"
  shows "timeline_step D result (JObj obj) = ([], Bound None)
    \<and> fst (timeline_loop D result (before @ JObj obj # after)) =
        fst (timeline_loop D result before) @ fst (timeline_loop D (Bound None) after)
    \<and> (map_of doc ''timelineObjects'' = Some (JArr (before @ JObj obj # after)) \<longrightarrow>
        parse_semantic_location_history D (JObj doc) =
          (fst (timeline_loop D Unbound before) @ fst (timeline_loop D (Bound None) after), None))"
proof -
  have "find (\<lambda>k. map_of loc k = None) sem_required_location_keys \<noteq> None"
    using missing by (auto simp: sem_required_location_keys_def)
  then have "place_visit_body D (JObj pv) = Inr None"
    by (simp add: place_visit_body_def loc check_required_keys_dict)
  then have "parse_place_visit D (JObj pv) = Inr None"
    by (simp add: parse_place_visit_def check_required_keys_dict sem_required_keys_def loc dur)
  then have step: "timeline_step D r (JObj obj) = ([], Bound None)" for r
    by (simp add: timeline_step_def obj)
  have loop: "fst (timeline_loop D r (bs @ JObj obj # after)) =
        fst (timeline_loop D r bs) @ fst (timeline_loop D (Bound None) after)" for r bs
    by (simp add: timeline_loop_append step split_beta)
  show ?thesis
    by (simp add: step loop parse_semantic_location_history_def)
qed

text \<open>Witness for C3: the discarded visit between two objects with neither key.  The
  second of them yields its error only, since the discard left \<open>result = None\<close>.\<close>

theorem place_visit_silent_discard_witness:
  "timeline_step spec_deps Unbound discarded_visit = ([], Bound None)
   \<and> parse_semantic_location_history spec_deps
        (JObj [(''timelineObjects'', JArr [JObj [], discarded_visit, JObj []])]) =
      ([Inl (RuntimeError (UnknownTimelineObject [])), Inl UnboundLocalError,
        Inl (RuntimeError (UnknownTimelineObject []))], None)"
proof -
  let ?pv = "[(''location'',
                   JObj [(''latitudeE7'', JInt 555555555),
                         (''longitudeE7'', JInt (- 1066666666)),
                         (''address'', JStr ''address'')]),
                  (''duration'',
                   JObj [(''startTimestamp'', JStr ''2017-12-10T23:29:25.026Z''),
                         (''endTimestamp'', JStr ''2017-12-11T01:20:06.106Z'')])]"
  have "timeline_step spec_deps Unbound (JObj [(''placeVisit'', JObj ?pv)]) = ([], Bound None)
    \<and> fst (timeline_loop spec_deps Unbound ([JObj []] @ JObj [(''placeVisit'', JObj ?pv)] # [JObj []])) =
        fst (timeline_loop spec_deps Unbound [JObj []]) @ fst (timeline_loop spec_deps (Bound None) [JObj []])
    \<and> (map_of [(''timelineObjects'', JArr [JObj [], discarded_visit, JObj []])] ''timelineObjects''
           = Some (JArr ([JObj []] @ JObj [(''placeVisit'', JObj ?pv)] # [JObj []])) \<longrightarrow>
        parse_semantic_location_history spec_deps (JObj [(''timelineObjects'', JArr [JObj [], discarded_visit, JObj []])]) =
          (fst (timeline_loop spec_deps Unbound [JObj []]) @ fst (timeline_loop spec_deps (Bound None) [JObj []]), None))"
    by (rule place_visit_silent_discard
          [where pv = "?pv" and loc = "[(''latitudeE7'', JInt 555555555),
                         (''longitudeE7'', JInt (- 1066666666)),
                         (''address'', JStr ''address'')]"
             and dur = "JObj [(''startTimestamp'', JStr ''2017-12-10T23:29:25.026Z''),
                         (''endTimestamp'', JStr ''2017-12-11T01:20:06.106Z'')]"])
       simp_all
  then show ?thesis
    by (simp add: discarded_visit_def timeline_step_def)
qed

subsection \<open>A location record that is not an object\<close>

text \<open>
  Claim C4: in the coarse location-history extractor every exception raised while one
  record is processed, a record that is not an object included, is that record's
  outcome, and the iteration goes on.

  The code does not do this.  In \<open>{"locations": [r, 5, r']}\<close> with two objects \<open>r\<close> and
  \<open>r'\<close>, the record \<open>5\<close> raises \<open>AttributeError\<close> at \<open>loc.get("accuracy")\<close>, before
  the \<open>try\<close>: the exception leaves the generator after the outcome of \<open>r\<close>, the record
  \<open>5\<close> has no outcome and \<open>r'\<close> is never reached.
\<close>

theorem location_non_object_record_escapes:
  "parse_location_history D (JObj [(''locations'', JArr [JObj r, JInt 5, JObj r'])]) =
     ([location_of_json D (JObj r) (case map_of r ''accuracy'' of None \<Rightarrow> JNull | Some v \<Rightarrow> v)],
      Some AttributeError)"
  by (simp add: parse_location_history_def split: option.split)

subsection \<open>An activity segment without a start or end location\<close>

text \<open>
  Claim C5: an activity segment with the required \<open>duration\<close> and \<open>activities\<close> keys
  and no \<open>startLocation\<close> key (or no \<open>endLocation\<close> key) still gives an event, with
  the start (or end) coordinates absent.

  The code does not do this.  \<open>activitySegment["startLocation"]\<close> is an index, not a
  \<open>get\<close>: on the segment below, which has everything but \<open>startLocation\<close>, it raises
  \<open>KeyError\<close>, and the \<open>except\<close> clause raises the \<open>RuntimeError\<close> that names the key.
\<close>

theorem segment_without_startLocation_is_error:
  "parse_activity_segment D
     (JObj [(''endLocation'', JObj []),
            (''duration'',
             JObj [(''startTimestamp'', JStr ''2012-12-06T04:09:31.087Z''),
                   (''endTimestamp'', JStr ''2012-12-06T04:19:21.052Z'')]),
            (''distance'', JInt 735),
            (''confidence'', JStr ''LOW''),
            (''activities'', JArr [])]) =
     Inl (RuntimeError (ActivitySegmentNoKey ''startLocation''))"
  by (simp add: parse_activity_segment_def sem_activity_segment_required_keys_def
      activity_segment_body_def segment_endpoint_def)

subsection \<open>An activity segment with an empty start or end location\<close>

lemma segment_endpoint_empty:
  "map_of seg k = Some (JObj []) \<Longrightarrow> segment_endpoint (JObj seg) k = Inr (None, None)"
  by (simp add: segment_endpoint_def)

lemma activity_segment_body_endpoints:
  assumes "activity_segment_body D seg = Inr ev"
  shows "\<exists>s e. segment_endpoint seg ''startLocation'' = Inr s
           \<and> segment_endpoint seg ''endLocation'' = Inr e
           \<and> ActivitySegment_startLat ev = fst s \<and> ActivitySegment_startLng ev = snd s
           \<and> ActivitySegment_endLat ev = fst e \<and> ActivitySegment_endLng ev = snd e"
  using assms unfolding activity_segment_body_def rbind_eq_Inr by auto

lemma parse_activity_segment_body:
  assumes "parse_activity_segment D seg = Inr ev"
  shows "activity_segment_body D seg = Inr ev"
  using assms unfolding parse_activity_segment_def rbind_eq_Inr
  by (auto simp: reraise_eq_Inr split: option.splits)

text \<open>
  Claim C6: where the \<open>startLocation\<close> (or \<open>endLocation\<close>) key of an activity segment
  is present and maps to the empty object, the event has \<open>startLat\<close> and \<open>startLng\<close>
  (or \<open>endLat\<close> and \<open>endLng\<close>) both \<open>None\<close>, not the coordinate \<open>0.0\<close>.
\<close>

theorem empty_location_gives_no_coordinates:
  assumes "parse_activity_segment D (JObj seg) = Inr ev"
  shows "(map_of seg ''startLocation'' = Some (JObj []) \<longrightarrow>
            ActivitySegment_startLat ev = None \<and> ActivitySegment_startLng ev = None)
       \<and> (map_of seg ''endLocation'' = Some (JObj []) \<longrightarrow>
            ActivitySegment_endLat ev = None \<and> ActivitySegment_endLng ev = None)"
proof -
  from assms have "activity_segment_body D (JObj seg) = Inr ev"
    by (rule parse_activity_segment_body)
  then obtain s e where
    "segment_endpoint (JObj seg) ''startLocation'' = Inr s"
    "segment_endpoint (JObj seg) ''endLocation'' = Inr e"
    "ActivitySegment_startLat ev = fst s" "ActivitySegment_startLng ev = snd s"
    "ActivitySegment_endLat ev = fst e" "ActivitySegment_endLng ev = snd e"
    using activity_segment_body_endpoints by blast
  then show ?thesis
    by (auto simp: segment_endpoint_empty)
qed

text \<open>Witness for C6: the segment of the repository's test, whose two locations are
  empty objects, and the event the test expects.\<close>

theorem empty_location_gives_no_coordinates_witness:
  "parse_activity_segment spec_deps (JObj basic_segment) = Inr basic_segment_event
   \<and> map_of basic_segment ''startLocation'' = Some (JObj [])
   \<and> map_of basic_segment ''endLocation'' = Some (JObj [])
   \<and> ActivitySegment_startLat basic_segment_event = None
   \<and> ActivitySegment_startLng basic_segment_event = None
   \<and> ActivitySegment_endLat basic_segment_event = None
   \<and> ActivitySegment_endLng basic_segment_event = None"
proof -
  have m: "map_of basic_segment ''startLocation'' = Some (JObj [])"
    "map_of basic_segment ''endLocation'' = Some (JObj [])"
    by (simp_all add: basic_segment_def)
  from empty_location_gives_no_coordinates[OF basic_segment_parses] m basic_segment_parses
  show ?thesis by blast
qed

subsection \<open>The identity keys\<close>

text \<open>
  Claim C7: the key of an event is the tuple of the data model -- Activity: (header,
  title, truncated timestamp); PlaceVisit: (lat, lng, truncated start timestamp, visit
  confidence); ActivitySegment: (start timestamp, end timestamp, distance);
  BrowserHistoryEntry: (url, truncated timestamp) -- and every truncated timestamp is
  the integer UTC epoch second of its timestamp.

  As stated this fails in two ways.  The key of an activity segment holds the start
  and end timestamps truncated to the second, not the timestamps: two segments that
  differ in the fraction of the start second share a key.  And \<open>int(t.timestamp())\<close>
  goes through a double and truncates toward zero: at \<open>2600-01-01T00:00:00.999999Z\<close>
  the double is the next whole second, and half a second before the epoch the result is
  \<open>0\<close>, not \<open>-1\<close>.
\<close>

theorem key_counterexample:
  "ActivitySegment_startTime segment_a \<noteq> ActivitySegment_startTime segment_b
   \<and> ActivitySegment_key segment_a = ActivitySegment_key segment_b
   \<and> Activity_key (activity_at (utc_datetime 2600 1 1 0 0 0 999999)) =
       Inr (JStr ''Search'', JStr ''Searched for maps'', 19880899201)
   \<and> epoch_second (utc_datetime 2600 1 1 0 0 0 999999) = 19880899200
   \<and> Activity_key (activity_at (utc_datetime 1969 12 31 23 59 59 500000)) =
       Inr (JStr ''Search'', JStr ''Searched for maps'', 0)
   \<and> epoch_second (utc_datetime 1969 12 31 23 59 59 500000) = - 1"
proof -
  have a: "int_timestamp (Aware 1354766971087000) = Inr 1354766971"
    "int_timestamp (Aware 1354766971900000) = Inr 1354766971"
    "int_timestamp (Aware 1354767561052000) = Inr 1354767561"
    using int_timestamp_exact[of 1354766971087000] int_timestamp_exact[of 1354766971900000]
      int_timestamp_exact[of 1354767561052000]
    by (simp_all add: exact_us_def)
  have b: "int_timestamp (Aware 19880899200999999) = Inr 19880899201"
    by (simp add: int_timestamp_def int_truediv_def round_binary64_def nearest_year_2600
        trunc_toward_zero_def)
  have "\<lceil>- (1 / 2) :: rat\<rceil> = 0" by (intro ceiling_unique) simp_all
  then have c: "int_timestamp (Aware (- 500000)) = Inr 0"
    by (simp add: int_timestamp_def int_truediv_def round_binary64_def nearest_minus_half
        trunc_toward_zero_def)
  show ?thesis
    by (simp add: segment_a_def segment_b_def activity_at_def ActivitySegment_key_def
        Activity_key_def utc_simps a b c epoch_second_def)
qed

text \<open>
  Claim C7 as amended: the keys are (header, title, second), (lat, lng, start second,
  visit confidence), (start second, end second, distance) and (url, second), where the
  second of a timestamp is its integer UTC epoch second, for every timestamp from the
  epoch up to \<open>2^33\<close> seconds after it.
\<close>

theorem keys_are_truncated_tuples:
  "(exact_us (epoch_us (Activity_time a)) \<longrightarrow>
      Activity_key a = Inr (Activity_header a, Activity_title a, epoch_second (Activity_time a)))
   \<and> (exact_us (epoch_us (PlaceVisit_startTime v)) \<longrightarrow>
      PlaceVisit_key v =
        Inr (PlaceVisit_lat v, PlaceVisit_lng v, epoch_second (PlaceVisit_startTime v),
             PlaceVisit_visitConfidence v))
   \<and> (exact_us (epoch_us (ActivitySegment_startTime s))
        \<and> exact_us (epoch_us (ActivitySegment_endTime s)) \<longrightarrow>
      ActivitySegment_key s =
        Inr (epoch_second (ActivitySegment_startTime s), epoch_second (ActivitySegment_endTime s),
             ActivitySegment_distance s))
   \<and> (exact_us (epoch_us (ChromeHistory_dt h)) \<longrightarrow>
      ChromeHistory_key h = Inr (ChromeHistory_url h, epoch_second (ChromeHistory_dt h)))"
  by (simp add: Activity_key_def PlaceVisit_key_def ActivitySegment_key_def ChromeHistory_key_def
      int_timestamp_epoch_second)

text \<open>Witness for C7: an activity, and the place visit, the first activity segment
  and the browser-history entry the repository's tests expect.\<close>

theorem keys_are_truncated_tuples_witness:
  "exact_us (epoch_us (Activity_time (activity_at (utc_datetime 2021 4 2 23 4 50 134513))))
   \<and> Activity_key (activity_at (utc_datetime 2021 4 2 23 4 50 134513)) =
       Inr (JStr ''Search'', JStr ''Searched for maps'', 1617404690)
   \<and> exact_us (epoch_us (PlaceVisit_startTime test_place_visit))
   \<and> PlaceVisit_key test_place_visit =
       Inr (round_binary64 (555555555 / 10 ^ 7), round_binary64 (- 1066666666 / 10 ^ 7),
            1512948565, JFloat (round_binary64 (6545 / 100)))
   \<and> exact_us (epoch_us (ActivitySegment_startTime segment_a))
   \<and> exact_us (epoch_us (ActivitySegment_endTime segment_a))
   \<and> ActivitySegment_key segment_a = Inr (1354766971, 1354767561, JInt 735)
   \<and> exact_us (epoch_us (ChromeHistory_dt test_chrome_history))
   \<and> ChromeHistory_key test_chrome_history = Inr (JStr ''https://sean.fish'', 1617404690)"
proof -
  have e: "exact_us (epoch_us (Activity_time (activity_at (utc_datetime 2021 4 2 23 4 50 134513))))"
    "exact_us (epoch_us (PlaceVisit_startTime test_place_visit))"
    "exact_us (epoch_us (ActivitySegment_startTime segment_a))"
    "exact_us (epoch_us (ActivitySegment_endTime segment_a))"
    "exact_us (epoch_us (ChromeHistory_dt test_chrome_history))"
    by (simp_all add: activity_at_def test_place_visit_def segment_a_def test_chrome_history_def
        utc_simps exact_us_def)
  from keys_are_truncated_tuples
    [of "activity_at (utc_datetime 2021 4 2 23 4 50 134513)" test_place_visit segment_a
        test_chrome_history] e
  show ?thesis
    by (simp add: activity_at_def test_place_visit_def segment_a_def test_chrome_history_def
        utc_simps epoch_second_def)
qed

subsection \<open>Browser history: the timestamp and the URL\<close>

lemma chrome_item_exact:
  assumes "map_of item ''time_usec'' = Some (JInt n)" "exact_us n"
    "map_of item ''title'' = Some t" "map_of item ''url'' = Some u"
  shows "chrome_item (JObj item) =
     Inr \<lparr>ChromeHistory_title = t, ChromeHistory_url = u, ChromeHistory_dt = Aware n\<rparr>"
proof -
  have "rbind (int_truediv n (10 ^ 6)) utcfromtimestamp = Inr (Naive n)"
    using truediv_finite[OF assms(2)] utcfromtimestamp_exact[OF assms(2)] by simp
  then show ?thesis
    using assms(1,3,4) by (simp add: chrome_item_def del: power_numeral)
qed

lemma chrome_item_url:
  assumes "chrome_item (JObj item) = Inr ev"
  shows "map_of item ''url'' = Some (ChromeHistory_url ev)"
  using assms unfolding chrome_item_def rbind_eq_Inr
  by (auto split: option.splits)

lemma parse_chrome_history_items:
  assumes "map_of doc ''Browser History'' = Some (JArr items)"
  shows "parse_chrome_history (JObj doc) = (map chrome_item items, None)"
  using assms by (simp add: parse_chrome_history_def)

text \<open>
  Claim C8: for every browser-history record with an integer \<open>time_usec\<close>, the
  timestamp of the event is the UTC instant \<open>time_usec\<close> microseconds after the epoch
  (\<open>1617404690134513\<close> gives \<open>2021-04-02T23:04:50.134513Z\<close>), and the URL of the record
  is passed through unmodified.

  As stated, for every integer, the first half fails: \<open>time_usec / 10**6\<close> is a double,
  and from \<open>2^33\<close> seconds on the doubles are more than a microsecond apart.  The
  record with \<open>time_usec = 8589934592000001\<close> gives the instant \<open>8589934592000002\<close>.
\<close>

theorem chrome_timestamp_counterexample:
  "chrome_item (JObj late_chrome_item) =
     Inr \<lparr>ChromeHistory_title = JStr ''sean'', ChromeHistory_url = JStr ''http://sean.fish'',
          ChromeHistory_dt = Aware 8589934592000002\<rparr>
   \<and> Aware 8589934592000002 \<noteq> Aware 8589934592000001"
proof -
  have a: "int_truediv 8589934592000001 1000000 = Inr (Fin (4503599627370497 / 524288))"
    by (simp add: int_truediv_def round_binary64_def nearest_after_2_33)
  have r: "round_half_even (15625 / 8192) = 2" by (rule round_half_even_near) simp
  have fl: "\<lfloor>4503599627370497 / 524288 :: rat\<rfloor> = 8589934592" by (intro floor_unique) simp_all
  have "utcfromtimestamp (Fin (4503599627370497 / 524288)) = Inr (Naive (8589934592 * 1000000 + 2))"
    by (rule utcfromtimestamp_eval) (simp_all add: fl nearest_15625_8192 r)
  then have b: "utcfromtimestamp (Fin (4503599627370497 / 524288)) = Inr (Naive 8589934592000002)"
    by simp
  show ?thesis by (simp add: late_chrome_item_def chrome_item_def a b)
qed

text \<open>
  Claim C8 as amended: for every browser-history record whose \<open>time_usec\<close> is an
  integer from \<open>0\<close> up to \<open>2^33 * 10^6\<close> (not included) and that has a title and a
  URL, the event holds the title, the URL and exactly the UTC instant \<open>time_usec\<close>
  microseconds after the epoch; whenever a record gives an event, its URL is the
  record's, unmodified; and a document with a \<open>Browser History\<close> list gives one
  outcome per record.
\<close>

theorem chrome_timestamp_and_url:
  "(map_of item ''time_usec'' = Some (JInt n) \<and> exact_us n
      \<and> map_of item ''title'' = Some t \<and> map_of item ''url'' = Some u \<longrightarrow>
      chrome_item (JObj item) =
        Inr \<lparr>ChromeHistory_title = t, ChromeHistory_url = u, ChromeHistory_dt = Aware n\<rparr>)
   \<and> (chrome_item (JObj item) = Inr ev \<longrightarrow> map_of item ''url'' = Some (ChromeHistory_url ev))
   \<and> (map_of doc ''Browser History'' = Some (JArr items) \<longrightarrow>
      parse_chrome_history (JObj doc) = (map chrome_item items, None))"
  using chrome_item_exact chrome_item_url parse_chrome_history_items by blast

text \<open>Witness for C8: the record of the repository's test, with an \<open>http\<close> URL.\<close>

theorem chrome_timestamp_and_url_witness:
  "exact_us 1617404690134513
   \<and> chrome_item (JObj test_chrome_item) =
       Inr \<lparr>ChromeHistory_title = JStr ''sean'', ChromeHistory_url = JStr ''http://sean.fish'',
            ChromeHistory_dt = utc_datetime 2021 4 2 23 4 50 134513\<rparr>
   \<and> parse_chrome_history (JObj [(''Browser History'', JArr [JObj test_chrome_item])]) =
       ([Inr \<lparr>ChromeHistory_title = JStr ''sean'', ChromeHistory_url = JStr ''http://sean.fish'',
              ChromeHistory_dt = utc_datetime 2021 4 2 23 4 50 134513\<rparr>], None)"
proof -
  let ?ev = "\<lparr>ChromeHistory_title = JStr ''sean'', ChromeHistory_url = JStr ''http://sean.fish'',
            ChromeHistory_dt = Aware 1617404690134513\<rparr>"
  have e: "exact_us 1617404690134513" by (simp add: exact_us_def)
  have m: "map_of test_chrome_item ''time_usec'' = Some (JInt 1617404690134513)"
    "map_of test_chrome_item ''title'' = Some (JStr ''sean'')"
    "map_of test_chrome_item ''url'' = Some (JStr ''http://sean.fish'')"
    by (simp_all add: test_chrome_item_def)
  have d: "map_of [(''Browser History'', JArr [JObj test_chrome_item])] ''Browser History''
       = Some (JArr [JObj test_chrome_item])"
    by simp
  note t = chrome_timestamp_and_url
    [of test_chrome_item 1617404690134513 "JStr ''sean''" "JStr ''http://sean.fish''" ?ev
        "[(''Browser History'', JArr [JObj test_chrome_item])]" "[JObj test_chrome_item]"]
  from t e m have a: "chrome_item (JObj test_chrome_item) = Inr ?ev" by blast
  from t d have b: "parse_chrome_history (JObj [(''Browser History'', JArr [JObj test_chrome_item])])
      = (map chrome_item [JObj test_chrome_item], None)" by blast
  have u: "utc_datetime 2021 4 2 23 4 50 134513 = Aware 1617404690134513"
    by (rule utc_simps)
  show ?thesis unfolding u using e a b by simp
qed

subsection \<open>The E7 decode\<close>



subsection \<open>The subtitles of a legacy activity record\<close>

lemma blob_subtitles_eq_Inr:
  "blob_subtitles (JObj blob) = Inr subs \<longleftrightarrow>
     (\<exists>xs. py_iter (case map_of blob ''subtitles'' of None \<Rightarrow> JArr [] | Some v \<Rightarrow> v) = Inr xs
           \<and> subs = concat (map subtitle_entries xs))"
  by (auto simp add: blob_subtitles_def rbind_eq_Inr split: option.splits)

lemma activity_of_blob_legacy:
  assumes "map_of blob ''snippet'' = Some sn" "activity_of_blob D (JObj blob) = Inr ev"
  shows "blob_subtitles (JObj blob) = Inr (Activity_subtitles ev)"
    and "Activity_header ev = JStr ''YouTube''"
    and "py_getitem sn ''title'' = Inr (Activity_title ev)"
  using assms unfolding activity_of_blob_def rbind_eq_Inr by auto

text \<open>
  Claim C10: for a legacy record, one with a \<open>snippet\<close> key, the subtitles of the
  event are built from the \<open>subtitles\<close> field of the outer record, read before the
  snippet is unwrapped; subtitles inside the snippet are ignored, so a legacy record
  whose only subtitles are under \<open>snippet\<close> gives an event with no subtitles.

  For every record with a \<open>snippet\<close> key that gives an event: when the outer record
  has the list \<open>ss\<close> under \<open>subtitles\<close>, the subtitles of the event are the entries of
  the elements of \<open>ss\<close>, in order, one for each dict with a \<open>name\<close>; whatever value
  \<open>v\<close> the outer record has there, it is that value the loop iterates; without the
  key the event has no subtitles.  Nothing of the snippet enters: the right-hand sides
  name the outer record only.  (The header is the fixed \<open>YouTube\<close> and the title does
  come from the snippet.)
\<close>

theorem legacy_subtitles_from_outer_record:
  assumes "map_of blob ''snippet'' = Some sn" and "activity_of_blob D (JObj blob) = Inr ev"
  shows "(map_of blob ''subtitles'' = Some (JArr ss) \<longrightarrow>
            Activity_subtitles ev = concat (map subtitle_entries ss))
       \<and> (map_of blob ''subtitles'' = Some v \<longrightarrow>
            (\<exists>xs. py_iter v = Inr xs \<and> Activity_subtitles ev = concat (map subtitle_entries xs)))
       \<and> (map_of blob ''subtitles'' = None \<longrightarrow> Activity_subtitles ev = [])
       \<and> blob_subtitles (JObj blob) = Inr (Activity_subtitles ev)
       \<and> Activity_header ev = JStr ''YouTube''
       \<and> py_getitem sn ''title'' = Inr (Activity_title ev)"
proof -
  note l = activity_of_blob_legacy[OF assms]
  from l(1) obtain xs where
    xs: "py_iter (case map_of blob ''subtitles'' of None \<Rightarrow> JArr [] | Some v \<Rightarrow> v) = Inr xs"
      "Activity_subtitles ev = concat (map subtitle_entries xs)"
    unfolding blob_subtitles_eq_Inr by blast
  have a: "map_of blob ''subtitles'' = Some (JArr ss) \<longrightarrow>
      Activity_subtitles ev = concat (map subtitle_entries ss)"
    using xs by auto
  have b: "map_of blob ''subtitles'' = Some v \<longrightarrow>
      (\<exists>xs. py_iter v = Inr xs \<and> Activity_subtitles ev = concat (map subtitle_entries xs))"
    using xs by auto
  have c: "map_of blob ''subtitles'' = None \<longrightarrow> Activity_subtitles ev = []"
    using xs by auto
  from a b c l show ?thesis by blast
qed

text \<open>The snippet has no part in the subtitles: two legacy records with the same outer
  \<open>subtitles\<close> field give events with the same subtitles, whatever their snippets
  hold.\<close>

lemma legacy_subtitles_ignore_snippet:
  assumes "map_of blob ''snippet'' = Some sn" and "activity_of_blob D (JObj blob) = Inr ev"
    and "map_of blob' ''snippet'' = Some sn'" and "activity_of_blob D' (JObj blob') = Inr ev'"
    and "map_of blob' ''subtitles'' = map_of blob ''subtitles''"
  shows "Activity_subtitles ev' = Activity_subtitles ev"
proof -
  have "blob_subtitles (JObj blob') = blob_subtitles (JObj blob)"
    using assms(5) by (simp add: blob_subtitles_def)
  with activity_of_blob_legacy(1)[OF assms(1,2)] activity_of_blob_legacy(1)[OF assms(3,4)]
  show ?thesis by simp
qed

lemma legacy_blob_event: "activity_of_blob spec_deps (JObj legacy_blob) = Inr legacy_event"
  by (simp add: legacy_blob_def legacy_event_def activity_of_blob_def blob_subtitles_def
      spec_deps_def spec_parse_json_utc_date_def valid_civil_def days_in_month_def
      is_leap_year_def fraction_us_def spec_convert_to_https_opt_def)

lemma legacy_blob_both_event:
  "activity_of_blob spec_deps (JObj legacy_blob_both) = Inr legacy_both_event"
  by (simp add: legacy_blob_both_def legacy_both_event_def nested_snippet_def
      outer_subtitles_def nested_subtitles_def activity_of_blob_def blob_subtitles_def
      spec_deps_def spec_parse_json_utc_date_def valid_civil_def days_in_month_def
      is_leap_year_def fraction_us_def spec_convert_to_https_opt_def)

text \<open>
  Witness for C10: the legacy record with one subtitle inside its snippet and none
  outside, whose event has no subtitles; and the legacy record with four outer entries
  and one nested entry, whose event has the two named outer entries and not the nested
  one.
\<close>

theorem legacy_subtitles_from_outer_record_witness:
  "map_of legacy_blob ''snippet'' =
     Some (JObj [(''title'', JStr ''Watched a video''),
                 (''publishedAt'', JStr ''2016-05-03T10:20:30.000Z''),
                 (''subtitles'', JArr [JObj [(''name'', JStr ''Some channel'')]])])
   \<and> activity_of_blob spec_deps (JObj legacy_blob) = Inr legacy_event
   \<and> map_of legacy_blob ''subtitles'' = None
   \<and> Activity_subtitles legacy_event = []
   \<and> blob_subtitles (JObj legacy_blob) = Inr (Activity_subtitles legacy_event)
   \<and> map_of legacy_blob_both ''snippet'' = Some nested_snippet
   \<and> py_getitem nested_snippet ''subtitles'' =
       Inr (JArr [JObj [(''name'', JStr ''Nested channel''),
                        (''url'', JStr ''https://www.youtube.com/channel/nested'')]])
   \<and> map_of legacy_blob_both ''subtitles'' = Some (JArr outer_subtitles)
   \<and> activity_of_blob spec_deps (JObj legacy_blob_both) = Inr legacy_both_event
   \<and> Activity_subtitles legacy_both_event = concat (map subtitle_entries outer_subtitles)
   \<and> Activity_subtitles legacy_both_event =
       [Subtitles (JStr ''Outer channel'') (JStr ''http://www.youtube.com/channel/outer''),
        Subtitles (JStr ''Second outer channel'') JNull]"
proof -
  have s: "map_of legacy_blob ''snippet'' =
     Some (JObj [(''title'', JStr ''Watched a video''),
                 (''publishedAt'', JStr ''2016-05-03T10:20:30.000Z''),
                 (''subtitles'', JArr [JObj [(''name'', JStr ''Some channel'')]])])"
    and n: "map_of legacy_blob ''subtitles'' = None"
    by (simp_all add: legacy_blob_def)
  have s': "map_of legacy_blob_both ''snippet'' = Some nested_snippet"
    and o: "map_of legacy_blob_both ''subtitles'' = Some (JArr outer_subtitles)"
    by (simp_all add: legacy_blob_both_def)
  have g: "py_getitem nested_snippet ''subtitles'' =
       Inr (JArr [JObj [(''name'', JStr ''Nested channel''),
                        (''url'', JStr ''https://www.youtube.com/channel/nested'')]])"
    by (simp add: nested_snippet_def nested_subtitles_def)
  have e: "Activity_subtitles legacy_both_event =
       [Subtitles (JStr ''Outer channel'') (JStr ''http://www.youtube.com/channel/outer''),
        Subtitles (JStr ''Second outer channel'') JNull]"
    by (simp add: legacy_both_event_def)
  note t = legacy_subtitles_from_outer_record[OF s legacy_blob_event,
      where ss = "[]" and v = JNull]
  note t' = legacy_subtitles_from_outer_record[OF s' legacy_blob_both_event,
      where ss = outer_subtitles and v = "JArr outer_subtitles"]
  from t n have a: "Activity_subtitles legacy_event = []"
    and b: "blob_subtitles (JObj legacy_blob) = Inr (Activity_subtitles legacy_event)"
    by blast+
  from t' o have c:
    "Activity_subtitles legacy_both_event = concat (map subtitle_entries outer_subtitles)"
    by blast
  from s legacy_blob_event n a b s' g o legacy_blob_both_event c e show ?thesis by blast
qed

end
